theory Spec2Isabelle
  imports Complex_Main "HOL-Library.Sublist"
begin

section \<open>JavaScript values used by the SDK\<close>

text \<open>
  A JavaScript string is a sequence of UTF-16 code units. The model uses \<^typ>\<open>string\<close> and
  reads every \<^typ>\<open>char\<close> as the code unit with the same number (0 to 255), so the strings
  of the model are the JavaScript strings over the Latin-1 range.

  A JavaScript number is modelled exactly: a rational, or one of the two special values that
  a division of two counts can produce. Rounding of IEEE doubles is not modelled.
\<close>

datatype number = Num rat | NaN | Infinity

definition js_div :: "nat \<Rightarrow> nat \<Rightarrow> number" where
  \<comment> \<open>\<open>a / b\<close> for two non-negative integers\<close>
  "js_div a b =
     (if b = 0 then (if a = 0 then NaN else Infinity) else Num (of_nat a / of_nat b))"

fun js_mul :: "number \<Rightarrow> rat \<Rightarrow> number" where
  \<comment> \<open>\<open>x * k\<close> for a positive finite constant \<open>k\<close>\<close>
  "js_mul (Num r) k = Num (r * k)"
| "js_mul NaN k = NaN"
| "js_mul Infinity k = Infinity"

definition code_unit :: "char \<Rightarrow> nat" where
  "code_unit c = of_char c"

definition isWhiteSpace :: "char \<Rightarrow> bool" where
  \<comment> \<open>the class \<open>\s\<close> of a regular expression, which is also what \<open>trim\<close> removes\<close>
  "isWhiteSpace c = (let n = code_unit c in (9 \<le> n \<and> n \<le> 13) \<or> n = 32 \<or> n = 160)"

definition isAsciiUpper :: "char \<Rightarrow> bool" where
  "isAsciiUpper c = (65 \<le> code_unit c \<and> code_unit c \<le> 90)"

definition isAsciiLower :: "char \<Rightarrow> bool" where
  "isAsciiLower c = (97 \<le> code_unit c \<and> code_unit c \<le> 122)"

definition isAsciiDigit :: "char \<Rightarrow> bool" where
  "isAsciiDigit c = (48 \<le> code_unit c \<and> code_unit c \<le> 57)"

definition isAsciiAlnum :: "char \<Rightarrow> bool" where
  "isAsciiAlnum c = (isAsciiUpper c \<or> isAsciiLower c \<or> isAsciiDigit c)"

definition asciiLower :: "char \<Rightarrow> char" where
  \<comment> \<open>ASCII lowercasing of one code unit, as the URL parser applies it\<close>
  "asciiLower c = (if isAsciiUpper c then char_of (code_unit c + 32) else c)"

definition toLowerCase_unit :: "char \<Rightarrow> char" where
  "toLowerCase_unit c =
     (let n = code_unit c
      in if (65 \<le> n \<and> n \<le> 90) \<or> (192 \<le> n \<and> n \<le> 222 \<and> n \<noteq> 215)
         then char_of (n + 32) else c)"

definition toLowerCase :: "string \<Rightarrow> string" where
  \<comment> \<open>\<open>String.prototype.toLowerCase\<close>\<close>
  "toLowerCase s = map toLowerCase_unit s"

fun split_ws_from :: "bool \<Rightarrow> string \<Rightarrow> string \<Rightarrow> string list" where
  \<comment> \<open>the flag says that the previous code unit was white space; the second argument is
      the piece being read\<close>
  "split_ws_from inws cur [] = [cur]"
| "split_ws_from inws cur (c # cs) =
     (if isWhiteSpace c
      then (if inws then split_ws_from True cur cs else cur # split_ws_from True [] cs)
      else split_ws_from False (cur @ [c]) cs)"

definition split_ws :: "string \<Rightarrow> string list" where
  \<comment> \<open>\<open>s.split(/\s+/)\<close>: the pieces between the maximal runs of white space; the empty
      string gives one empty piece, and white space at either end gives an empty piece there\<close>
  "split_ws s = split_ws_from False [] s"

definition trim :: "string \<Rightarrow> string" where
  "trim s = rev (dropWhile isWhiteSpace (rev (dropWhile isWhiteSpace s)))"

definition endsWith :: "string \<Rightarrow> string \<Rightarrow> bool" where
  "endsWith s t = suffix t s"

definition or_else :: "string option \<Rightarrow> string option \<Rightarrow> string option" where
  \<comment> \<open>\<open>a || b\<close> on optional strings: an absent value and the empty string are falsy\<close>
  "or_else a b = (case a of Some s \<Rightarrow> (if s = [] then b else Some s) | None \<Rightarrow> b)"

definition or_string :: "string option \<Rightarrow> string \<Rightarrow> string" where
  \<comment> \<open>\<open>a || d\<close> with a string for \<open>d\<close>\<close>
  "or_string a d = (case a of Some s \<Rightarrow> (if s = [] then d else s) | None \<Rightarrow> d)"

fun insert_sorted :: "('a \<Rightarrow> 'a \<Rightarrow> bool) \<Rightarrow> 'a \<Rightarrow> 'a list \<Rightarrow> 'a list" where
  "insert_sorted le x [] = [x]"
| "insert_sorted le x (y # ys) = (if le x y then x # y # ys else y # insert_sorted le x ys)"

definition js_sort :: "('a \<Rightarrow> 'a \<Rightarrow> bool) \<Rightarrow> 'a list \<Rightarrow> 'a list" where
  \<comment> \<open>\<open>Array.prototype.sort\<close>, which is stable; \<open>le a b\<close> says that the comparator
      returns a value at most 0 on \<open>(a, b)\<close>\<close>
  "js_sort le xs = foldr (insert_sorted le) xs []"

fun set_add :: "'a list \<Rightarrow> 'a \<Rightarrow> 'a list" where
  \<comment> \<open>\<open>Set.prototype.add\<close>; a \<open>Set\<close> is the list of its elements in insertion order\<close>
  "set_add s x = (if x \<in> set s then s else s @ [x])"

definition new_Set :: "'a list \<Rightarrow> 'a list" where
  "new_Set xs = foldl set_add [] xs"

section \<open>Content utilities (\<open>src/utils/content-utils.ts\<close>)\<close>

fun collapse_newlines :: "nat \<Rightarrow> string \<Rightarrow> string" where
  \<comment> \<open>\<open>replace(/\n{3,}/g, '\n\n')\<close>; the number is the length of the run of newlines
      read so far\<close>
  "collapse_newlines k [] = (if 3 \<le> k then replicate 2 (CHR 0x0A) else replicate k (CHR 0x0A))"
| "collapse_newlines k (c # cs) =
     (if c = CHR 0x0A then collapse_newlines (Suc k) cs
      else (if 3 \<le> k then replicate 2 (CHR 0x0A) else replicate k (CHR 0x0A))
           @ c # collapse_newlines 0 cs)"

definition cleanContent :: "string \<Rightarrow> string" where
  "cleanContent content =
     (if content = [] then []
      else trim (collapse_newlines 0 content))"

definition countWords :: "string \<Rightarrow> nat" where
  "countWords content =
     (if content = [] then 0
      else length (filter (\<lambda>word. 0 < length word) (split_ws content)))"

definition isWordChar :: "char \<Rightarrow> bool" where
  \<comment> \<open>the class \<open>\w\<close>\<close>
  "isWordChar c = (isAsciiAlnum c \<or> c = CHR ''_'')"

fun word_test_from :: "string \<Rightarrow> bool \<Rightarrow> string \<Rightarrow> bool" where
  \<comment> \<open>\<open>/\bword\b/i.test(content)\<close> for a lowercase ASCII word; the flag says that the
      code unit before the current position is a word character\<close>
  "word_test_from w prevw [] = False"
| "word_test_from w prevw (c # cs) =
     ((\<not> prevw \<and> length w \<le> length (c # cs)
        \<and> map asciiLower (take (length w) (c # cs)) = w
        \<and> (case drop (length w) (c # cs) of [] \<Rightarrow> True | d # _ \<Rightarrow> \<not> isWordChar d))
      \<or> word_test_from w (isWordChar c) cs)"

definition word_test :: "string \<Rightarrow> string \<Rightarrow> bool" where
  "word_test w content = word_test_from w False content"

definition languagePatterns :: "(string \<times> string list) list" where
  "languagePatterns =
     [(''en'', [''the'', ''and'', ''of'', ''is'']),
      (''es'', [''el'', ''la'', ''de'', ''que'']),
      (''fr'', [''le'', ''la'', ''de'', ''et'']),
      (''de'', [''der'', ''die'', ''das'', ''und''])]"

definition detectLanguage :: "string \<Rightarrow> string option" where
  "detectLanguage content =
     (let scores = map (\<lambda>(lang, patterns).
                      (lang, length (filter (\<lambda>pattern. word_test pattern content) patterns)))
                    languagePatterns
      in case js_sort (\<lambda>(la, a) (lb, b). b \<le> a) scores of
           [] \<Rightarrow> None
         | detected # _ \<Rightarrow> (if 0 < snd detected then Some (fst detected) else None))"

definition calculateSimilarity :: "string \<Rightarrow> string \<Rightarrow> number" where
  "calculateSimilarity content1 content2 =
     (let words1 = new_Set (split_ws (toLowerCase content1));
          words2 = new_Set (split_ws (toLowerCase content2));
          intersection = new_Set (filter (\<lambda>x. x \<in> set words2) words1);
          union = new_Set (words1 @ words2)
      in js_div (length intersection) (length union))"

definition vocabulary :: "string \<Rightarrow> string set" where
  \<comment> \<open>the elements of the \<open>Set\<close> that \<open>calculateSimilarity\<close> builds from one document\<close>
  "vocabulary content = set (split_ws (toLowerCase content))"

text \<open>
  The similarity that the specification and the documentation comment of
  \<open>calculateSimilarity\<close> name, written from their words and not from the code: the Jaccard
  similarity of the two sets of words, where the words of a document are the non-empty pieces
  between its runs of white space, as \<open>countWords\<close> counts them, in lower case; the
  similarity of two documents without words is 0.
\<close>

definition spec_vocabulary :: "string \<Rightarrow> string list" where
  "spec_vocabulary content =
     remdups (filter (\<lambda>word. 0 < length word) (split_ws (toLowerCase content)))"

definition spec_jaccard :: "string \<Rightarrow> string \<Rightarrow> rat" where
  "spec_jaccard content1 content2 =
     (let words1 = spec_vocabulary content1;
          words2 = spec_vocabulary content2;
          both = filter (\<lambda>x. x \<in> set words2) words1;
          either = remdups (words1 @ words2)
      in if either = [] then 0 else of_nat (length both) / of_nat (length either))"

section \<open>The platform's \<open>URL\<close> and \<open>URLSearchParams\<close> classes\<close>

text \<open>
  \<open>url-utils.ts\<close> parses with the platform's \<open>URL\<close> class, which follows the WHATWG URL
  Standard. The model below is that parser on the following fragment of its input language,
  where it returns what the platform returns:
  \<^item> a special scheme (\<open>http\<close>, \<open>https\<close>, \<open>ftp\<close>, \<open>ws\<close>, \<open>wss\<close>, in any letter case) followed
    by \<open>://\<close>;
  \<^item> a host made of non-empty labels of ASCII letters, digits and hyphens, separated by dots,
    with no label that starts with \<open>xn--\<close> and a last label that is not a number (the host is
    lower-cased);
  \<^item> an optional port of decimal digits, at most 65535 (the scheme's default port is dropped);
  \<^item> a path, a query and a fragment made of code units that the parser copies without
    percent-encoding them; dot segments of the path are resolved as the standard says; the
    names and values of the query, percent-decoded, are ASCII text.

  Outside this fragment the model answers \<open>None\<close>, as the platform does for a string that is
  not a URL at all (no scheme, an empty host, a port above 65535); the platform accepts and
  repairs more strings than the fragment holds (credentials, numeric hosts, white space,
  backslashes, code units that need percent-encoding).
\<close>

record url =
  scheme :: string
  host :: string
  port :: "nat option"
  path :: "string list"
  query :: "string option"
  fragment :: "string option"

definition specialSchemes :: "(string \<times> nat) list" where
  \<comment> \<open>the special schemes of the fragment with their default ports\<close>
  "specialSchemes =
     [(''ftp'', 21), (''http'', 80), (''https'', 443), (''ws'', 80), (''wss'', 443)]"

fun split_on :: "char \<Rightarrow> string \<Rightarrow> string list" where
  \<comment> \<open>strict splitting at every occurrence of a code unit\<close>
  "split_on d [] = [[]]"
| "split_on d (c # cs) =
     (if c = d then [] # split_on d cs
      else (case split_on d cs of [] \<Rightarrow> [[c]] | p # ps \<Rightarrow> (c # p) # ps))"

fun join_with :: "string \<Rightarrow> string list \<Rightarrow> string" where
  \<comment> \<open>\<open>Array.prototype.join\<close>\<close>
  "join_with d [] = []"
| "join_with d [x] = x"
| "join_with d (x # y # ys) = x @ d @ join_with d (y # ys)"

definition isHexDigit :: "char \<Rightarrow> bool" where
  "isHexDigit c =
     (isAsciiDigit c \<or> (65 \<le> code_unit c \<and> code_unit c \<le> 70)
      \<or> (97 \<le> code_unit c \<and> code_unit c \<le> 102))"

definition hexValue :: "char \<Rightarrow> nat" where
  "hexValue c =
     (if isAsciiDigit c then code_unit c - 48
      else if 65 \<le> code_unit c \<and> code_unit c \<le> 70 then code_unit c - 55
      else code_unit c - 87)"

definition hexDigit :: "nat \<Rightarrow> char" where
  \<comment> \<open>one upper-case hexadecimal digit\<close>
  "hexDigit n = (if n < 10 then char_of (48 + n) else char_of (55 + n))"

definition isHostChar :: "char \<Rightarrow> bool" where
  "isHostChar c = (isAsciiAlnum c \<or> c = CHR ''-'' \<or> c = CHR ''.'')"

definition isNumberLabel :: "string \<Rightarrow> bool" where
  \<comment> \<open>the standard's test for a last label that makes the host an IPv4 address\<close>
  "isNumberLabel l =
     (l \<noteq> [] \<and> (list_all isAsciiDigit l
        \<or> (prefix ''0x'' l \<and> list_all isHexDigit (drop 2 l))))"

definition host_parse :: "string \<Rightarrow> string option" where
  "host_parse input =
     (let h = map asciiLower input; labels = split_on (CHR ''.'') h
      in if input = [] \<or> \<not> list_all isHostChar input
            \<or> list_ex (\<lambda>l. l = [] \<or> prefix ''xn--'' l) labels
            \<or> isNumberLabel (last labels)
         then None else Some h)"

definition digits_to_nat :: "string \<Rightarrow> nat" where
  "digits_to_nat ds = foldl (\<lambda>n c. 10 * n + (code_unit c - 48)) 0 ds"

fun show_nat :: "nat \<Rightarrow> string" where
  \<comment> \<open>the decimal digits of a number\<close>
  "show_nat n =
     (if n < 10 then [char_of (48 + n)] else show_nat (n div 10) @ [char_of (48 + n mod 10)])"

declare show_nat.simps [simp del]

definition port_parse :: "string \<Rightarrow> string \<Rightarrow> nat option option" where
  \<comment> \<open>the port state: \<open>None\<close> is failure, \<open>Some None\<close> the null port\<close>
  "port_parse sch ds =
     (if \<not> list_all isAsciiDigit ds then None
      else if ds = [] then Some None
      else if 65535 < digits_to_nat ds then None
      else if map_of specialSchemes sch = Some (digits_to_nat ds) then Some None
      else Some (Some (digits_to_nat ds)))"

definition isPathChar :: "char \<Rightarrow> bool" where
  "isPathChar c = (isAsciiAlnum c \<or> c \<in> set ''-._~!$&()*+,;=:@%'' \<or> c = CHR 0x27)"

definition isQueryChar :: "char \<Rightarrow> bool" where
  "isQueryChar c = (isAsciiAlnum c \<or> c \<in> set ''-._~!$&()*+,;=:@%/?'')"

definition isFragmentChar :: "char \<Rightarrow> bool" where
  "isFragmentChar c = (isAsciiAlnum c \<or> c \<in> set ''-._~!$&()*+,;=:@%/?'' \<or> c = CHR 0x27)"

definition isSingleDot :: "string \<Rightarrow> bool" where
  "isSingleDot s = (map asciiLower s \<in> set [''.'', ''%2e''])"

definition isDoubleDot :: "string \<Rightarrow> bool" where
  "isDoubleDot s = (map asciiLower s \<in> set [''..'', ''.%2e'', ''%2e.'', ''%2e%2e''])"

fun path_state :: "string list \<Rightarrow> string list \<Rightarrow> string list" where
  \<comment> \<open>the path state on the segments between the slashes; the first argument is the path
      built so far\<close>
  "path_state acc [] = acc"
| "path_state acc (s # rest) =
     (if isDoubleDot s
      then (if rest = [] then butlast acc @ [[]] else path_state (butlast acc) rest)
      else if isSingleDot s
      then (if rest = [] then acc @ [[]] else path_state acc rest)
      else path_state (acc @ [s]) rest)"

fun percent_decode :: "string \<Rightarrow> string" where
  "percent_decode [] = []"
| "percent_decode (c # cs) =
     (if c = CHR ''%''
      then (case cs of
              a # b # rest \<Rightarrow>
                (if isHexDigit a \<and> isHexDigit b
                 then char_of (16 * hexValue a + hexValue b) # percent_decode rest
                 else c # percent_decode cs)
            | _ \<Rightarrow> c # percent_decode cs)
      else c # percent_decode cs)"

definition form_decode :: "string \<Rightarrow> string" where
  \<comment> \<open>a name or a value of a query string: \<open>+\<close> is a space, then the percent escapes are
      decoded; the bytes are read as UTF-8, which changes nothing for bytes up to 0x7F\<close>
  "form_decode s = percent_decode (map (\<lambda>c. if c = CHR ''+'' then CHR '' '' else c) s)"

definition form_encode_unit :: "char \<Rightarrow> string" where
  \<comment> \<open>the \<open>application/x-www-form-urlencoded\<close> byte serializer on the UTF-8 bytes of one code
      unit\<close>
  "form_encode_unit c =
     (let n = code_unit c
      in if c = CHR '' '' then ''+''
         else if isAsciiAlnum c \<or> c \<in> set ''*-._'' then [c]
         else if n < 128 then [CHR ''%'', hexDigit (n div 16), hexDigit (n mod 16)]
         else [CHR ''%'', hexDigit (12 + n div 64 div 16), hexDigit (n div 64 mod 16),
               CHR ''%'', hexDigit (8 + n mod 64 div 16), hexDigit (n mod 64 mod 16)])"

definition form_encode :: "string \<Rightarrow> string" where
  "form_encode s = concat (map form_encode_unit s)"

definition parse_pair :: "string \<Rightarrow> string \<times> string" where
  "parse_pair b =
     (form_decode (takeWhile (\<lambda>c. c \<noteq> CHR ''='') b),
      form_decode (drop 1 (dropWhile (\<lambda>c. c \<noteq> CHR ''='') b)))"

definition URLSearchParams :: "string \<Rightarrow> (string \<times> string) list" where
  \<comment> \<open>\<open>new URLSearchParams(init)\<close> for a string, as the list of its entries\<close>
  "URLSearchParams init =
     map parse_pair
       (filter (\<lambda>b. b \<noteq> [])
          (split_on (CHR ''&'') (if prefix ''?'' init then drop 1 init else init)))"

definition isAscii :: "string \<Rightarrow> bool" where
  "isAscii s = list_all (\<lambda>c. code_unit c < 128) s"

text \<open>
  The pieces of an input of the fragment, in the order in which the parser reads them: the
  scheme up to the first colon, the authority up to the first of \<open>/\<close>, \<open>?\<close> and \<open>#\<close>, in it the
  host up to a colon and the port after it, the path up to the first of \<open>?\<close> and \<open>#\<close>, the
  query between \<open>?\<close> and \<open>#\<close>, and the fragment after \<open>#\<close>.
\<close>

definition scheme_part :: "string \<Rightarrow> string" where
  "scheme_part input = map asciiLower (takeWhile (\<lambda>c. c \<noteq> CHR '':'') input)"

definition after_scheme :: "string \<Rightarrow> string" where
  "after_scheme input = dropWhile (\<lambda>c. c \<noteq> CHR '':'') input"

definition inAuthority :: "char \<Rightarrow> bool" where
  "inAuthority c = (c \<noteq> CHR ''/'' \<and> c \<noteq> CHR ''?'' \<and> c \<noteq> CHR ''#'')"

definition authority_part :: "string \<Rightarrow> string" where
  "authority_part input = takeWhile inAuthority (drop 3 (after_scheme input))"

definition after_authority :: "string \<Rightarrow> string" where
  "after_authority input = dropWhile inAuthority (drop 3 (after_scheme input))"

definition host_part :: "string \<Rightarrow> string" where
  "host_part input = takeWhile (\<lambda>c. c \<noteq> CHR '':'') (authority_part input)"

definition port_part :: "string \<Rightarrow> string" where
  "port_part input = drop 1 (dropWhile (\<lambda>c. c \<noteq> CHR '':'') (authority_part input))"

definition inPath :: "char \<Rightarrow> bool" where
  "inPath c = (c \<noteq> CHR ''?'' \<and> c \<noteq> CHR ''#'')"

definition path_part :: "string \<Rightarrow> string" where
  "path_part input = takeWhile inPath (after_authority input)"

definition after_path :: "string \<Rightarrow> string" where
  "after_path input = dropWhile inPath (after_authority input)"

definition query_part :: "string \<Rightarrow> string option" where
  "query_part input =
     (if prefix ''?'' (after_path input)
      then Some (takeWhile (\<lambda>c. c \<noteq> CHR ''#'') (drop 1 (after_path input))) else None)"

definition after_query :: "string \<Rightarrow> string" where
  "after_query input =
     (if prefix ''?'' (after_path input)
      then dropWhile (\<lambda>c. c \<noteq> CHR ''#'') (drop 1 (after_path input)) else after_path input)"

definition fragment_part :: "string \<Rightarrow> string option" where
  "fragment_part input = (if after_query input = [] then None else Some (drop 1 (after_query input)))"

definition query_ok :: "string option \<Rightarrow> bool" where
  \<comment> \<open>a query of the fragment\<close>
  "query_ok q =
     (case q of
        None \<Rightarrow> True
      | Some s \<Rightarrow>
          list_all isQueryChar s
          \<and> list_all (\<lambda>(name, val). isAscii name \<and> isAscii val) (URLSearchParams (CHR ''?'' # s)))"

definition fragment_ok :: "string option \<Rightarrow> bool" where
  \<comment> \<open>a fragment of the fragment\<close>
  "fragment_ok f = (case f of None \<Rightarrow> True | Some s \<Rightarrow> list_all isFragmentChar s)"

definition URL_parse :: "string \<Rightarrow> url option" where
  \<comment> \<open>\<open>new URL(input)\<close> on the fragment; \<open>None\<close> stands for the \<open>TypeError\<close> it throws and is
      also the answer for an input outside the fragment\<close>
  "URL_parse input =
     (if map_of specialSchemes (scheme_part input) = None \<or> \<not> prefix ''://'' (after_scheme input)
      then None
      else
        (case host_parse (host_part input) of
           None \<Rightarrow> None
         | Some h \<Rightarrow>
            (case port_parse (scheme_part input) (port_part input) of
               None \<Rightarrow> None
             | Some p \<Rightarrow>
                if list_all (\<lambda>c. isPathChar c \<or> c = CHR ''/'') (path_part input)
                   \<and> query_ok (query_part input) \<and> fragment_ok (fragment_part input)
                then Some \<lparr>scheme = scheme_part input, host = h, port = p,
                           path = path_state [] (split_on (CHR ''/'') (drop 1 (path_part input))),
                           query = query_part input, fragment = fragment_part input\<rparr>
                else None)))"

definition protocol :: "url \<Rightarrow> string" where
  "protocol u = scheme u @ '':''"

definition hostname :: "url \<Rightarrow> string" where
  "hostname u = host u"

definition pathname :: "url \<Rightarrow> string" where
  "pathname u = concat (map (\<lambda>s. CHR ''/'' # s) (path u))"

definition search :: "url \<Rightarrow> string" where
  "search u = (case query u of None \<Rightarrow> [] | Some q \<Rightarrow> (if q = [] then [] else CHR ''?'' # q))"

definition href :: "url \<Rightarrow> string" where
  \<comment> \<open>the URL serializer, which \<open>toString\<close> returns\<close>
  "href u =
     scheme u @ ''://'' @ host u
     @ (case port u of None \<Rightarrow> [] | Some p \<Rightarrow> CHR '':'' # show_nat p)
     @ pathname u
     @ (case query u of None \<Rightarrow> [] | Some q \<Rightarrow> CHR ''?'' # q)
     @ (case fragment u of None \<Rightarrow> [] | Some f \<Rightarrow> CHR ''#'' # f)"

definition set_hostname :: "url \<Rightarrow> string \<Rightarrow> url" where
  \<comment> \<open>the \<open>hostname\<close> setter: a value that the host parser refuses leaves the URL as it is\<close>
  "set_hostname u v = (case host_parse v of None \<Rightarrow> u | Some h \<Rightarrow> u\<lparr>host := h\<rparr>)"

definition set_hash :: "url \<Rightarrow> string \<Rightarrow> url" where
  \<comment> \<open>the \<open>hash\<close> setter; the code only assigns the empty string, which removes the fragment\<close>
  "set_hash u v =
     (if v = [] then u\<lparr>fragment := None\<rparr>
      else u\<lparr>fragment := Some (if prefix ''#'' v then drop 1 v else v)\<rparr>)"

definition set_search :: "url \<Rightarrow> string \<Rightarrow> url" where
  \<comment> \<open>the \<open>search\<close> setter, for the empty string and for a value that the query state copies
      unchanged, as every output of \<open>URLSearchParams.toString\<close> is\<close>
  "set_search u v =
     (if v = [] then u\<lparr>query := None\<rparr>
      else u\<lparr>query := Some (if prefix ''?'' v then drop 1 v else v)\<rparr>)"

definition params_toString :: "(string \<times> string) list \<Rightarrow> string" where
  "params_toString ps =
     join_with ''&'' (map (\<lambda>(name, val). form_encode name @ ''='' @ form_encode val) ps)"

section \<open>URL utilities (\<open>src/utils/url-utils.ts\<close>)\<close>

datatype error = Error string

definition platform_message :: string where
  \<comment> \<open>the message of the \<open>TypeError\<close> that \<open>new URL\<close> throws\<close>
  "platform_message = ''Invalid URL''"

definition validateUrl :: "string \<Rightarrow> error + url" where
  "validateUrl u =
     (case URL_parse u of
        None \<Rightarrow> Inl (Error (''Invalid URL: '' @ u @ '' - '' @ platform_message))
      | Some urlObj \<Rightarrow>
          if protocol urlObj \<notin> set [''http:'', ''https:'']
          then Inl (Error (''Invalid URL: '' @ u @ '' - ''
                           @ ''Only HTTP and HTTPS protocols are supported''))
          else Inr urlObj)"

record NormalizeUrlOptions =
  removeTrailingSlash :: "bool option"
  removeQueryParams :: "bool option"
  removeFragment :: "bool option"
  lowercase :: "bool option"
  sortQueryParams :: "bool option"

definition no_options :: NormalizeUrlOptions where
  \<comment> \<open>the object \<open>{}\<close>\<close>
  "no_options = \<lparr>removeTrailingSlash = None, removeQueryParams = None, removeFragment = None,
                 lowercase = None, sortQueryParams = None\<rparr>"

definition or_default :: "bool option \<Rightarrow> bool \<Rightarrow> bool" where
  \<comment> \<open>a destructuring default\<close>
  "or_default v d = (case v of None \<Rightarrow> d | Some b \<Rightarrow> b)"

definition normalizeUrl ::
  "(string \<Rightarrow> string \<Rightarrow> int) \<Rightarrow> NormalizeUrlOptions \<Rightarrow> string \<Rightarrow> error + string" where
  \<comment> \<open>the first argument is \<open>String.prototype.localeCompare\<close> of the platform's locale\<close>
  "normalizeUrl localeCompare options u =
     (case validateUrl u of
        Inl e \<Rightarrow> Inl e
      | Inr urlObj \<Rightarrow>
          let u1 = (if or_default (lowercase options) True
                    then set_hostname urlObj (toLowerCase (hostname urlObj)) else urlObj);
              u2 = (if or_default (removeFragment options) True then set_hash u1 [] else u1);
              u3 = (if or_default (removeQueryParams options) False then set_search u2 []
                    else if or_default (sortQueryParams options) True \<and> search u2 \<noteq> []
                    then set_search u2
                           (params_toString
                              (js_sort (\<lambda>(a, _) (b, _). localeCompare a b \<le> 0)
                                 (URLSearchParams (search u2))))
                    else u2);
              normalized = href u3
          in Inr (if or_default (removeTrailingSlash options) True \<and> endsWith normalized ''/''
                  then take (length normalized - 1) normalized else normalized))"

definition dedup_step ::
  "(string \<Rightarrow> string \<Rightarrow> int) \<Rightarrow> NormalizeUrlOptions
     \<Rightarrow> string list \<times> string list \<Rightarrow> string \<Rightarrow> string list \<times> string list" where
  \<comment> \<open>the body of the loop, on the pair of \<open>seen\<close> and \<open>unique\<close>\<close>
  "dedup_step localeCompare options st u =
     (case normalizeUrl localeCompare options u of
        Inr normalized \<Rightarrow>
          (if normalized \<notin> set (fst st) then (set_add (fst st) normalized, snd st @ [u]) else st)
      | Inl _ \<Rightarrow> st)"

definition dedup_state ::
  "(string \<Rightarrow> string \<Rightarrow> int) \<Rightarrow> NormalizeUrlOptions \<Rightarrow> string list \<Rightarrow> string list \<times> string list" where
  \<comment> \<open>\<open>seen\<close> and \<open>unique\<close> after the loop has run over a list\<close>
  "dedup_state localeCompare options urls = foldl (dedup_step localeCompare options) ([], []) urls"

definition options_or_default :: "NormalizeUrlOptions option \<Rightarrow> NormalizeUrlOptions" where
  \<comment> \<open>an absent \<open>options\<close> argument takes the default \<open>{}\<close> of \<open>normalizeUrl\<close>\<close>
  "options_or_default options = (case options of None \<Rightarrow> no_options | Some opts \<Rightarrow> opts)"

definition deduplicateUrls ::
  "(string \<Rightarrow> string \<Rightarrow> int) \<Rightarrow> string list \<Rightarrow> NormalizeUrlOptions option \<Rightarrow> string list" where
  "deduplicateUrls localeCompare urls options =
     snd (dedup_state localeCompare (options_or_default options) urls)"

fun byCodeUnits :: "string \<Rightarrow> string \<Rightarrow> int" where
  \<comment> \<open>a sample comparator: the comparison of two strings by their code units, which is
      what \<open>localeCompare\<close> answers in the root collation for two words of lower-case ASCII
      letters\<close>
  "byCodeUnits [] [] = 0"
| "byCodeUnits [] (y # ys) = - 1"
| "byCodeUnits (x # xs) [] = 1"
| "byCodeUnits (x # xs) (y # ys) =
     (if code_unit x < code_unit y then - 1
      else if code_unit y < code_unit x then 1
      else byCodeUnits xs ys)"

text \<open>
  A \<open>RegExp\<close> object is modelled by what \<open>test\<close> reads and writes: whether the pattern
  has the \<open>g\<close> or the \<open>y\<close> flag, its matcher (for a string and a start index at most the
  length of the string, the end index of the match that a search from that index finds), and
  the property \<open>lastIndex\<close>. Two entries of a pattern list are modelled as two objects.
\<close>

record RegExp =
  stateful :: bool
  matcher :: "string \<Rightarrow> nat \<Rightarrow> nat option"
  lastIndex :: nat

definition RegExp_test :: "RegExp \<Rightarrow> string \<Rightarrow> bool \<times> RegExp" where
  \<comment> \<open>\<open>RegExp.prototype.test\<close>: without the \<open>g\<close> and \<open>y\<close> flags the search starts at 0 and
      \<open>lastIndex\<close> is left alone; with one of them it starts at \<open>lastIndex\<close>, which is then set
      to the end of the match, or to 0 when there is none\<close>
  "RegExp_test r s =
     (if \<not> stateful r then (matcher r s 0 \<noteq> None, r)
      else if length s < lastIndex r then (False, r\<lparr>lastIndex := 0\<rparr>)
      else (case matcher r s (lastIndex r) of
              None \<Rightarrow> (False, r\<lparr>lastIndex := 0\<rparr>)
            | Some e \<Rightarrow> (True, r\<lparr>lastIndex := e\<rparr>)))"

fun some_test :: "RegExp list \<Rightarrow> string \<Rightarrow> bool \<times> RegExp list" where
  \<comment> \<open>\<open>patterns.some((pattern) => pattern.test(url))\<close>, which stops at the first success\<close>
  "some_test [] u = (False, [])"
| "some_test (r # rs) u =
     (case RegExp_test r u of
        (True, r') \<Rightarrow> (True, r' # rs)
      | (False, r') \<Rightarrow> (case some_test rs u of (b, rs') \<Rightarrow> (b, r' # rs')))"

definition filter_callback ::
  "RegExp list option \<Rightarrow> RegExp list option \<Rightarrow> string
     \<Rightarrow> bool \<times> RegExp list option \<times> RegExp list option" where
  \<comment> \<open>the callback of \<open>urls.filter\<close>, with the include and the exclude patterns as they are
      before and after the call\<close>
  "filter_callback includePatterns excludePatterns u =
     (case (case excludePatterns of
              None \<Rightarrow> (False, None)
            | Some ps \<Rightarrow> (case some_test ps u of (b, ps') \<Rightarrow> (b, Some ps'))) of
        (True, excl) \<Rightarrow> (False, includePatterns, excl)
      | (False, excl) \<Rightarrow>
          (case includePatterns of
             None \<Rightarrow> (True, None, excl)
           | Some ps \<Rightarrow>
               if ps \<noteq> []
               then (case some_test ps u of (b, ps') \<Rightarrow> (b, Some ps', excl))
               else (True, Some ps, excl)))"

fun filter_loop ::
  "RegExp list option \<Rightarrow> RegExp list option \<Rightarrow> string list
     \<Rightarrow> string list \<times> RegExp list option \<times> RegExp list option" where
  "filter_loop inc exc [] = ([], inc, exc)"
| "filter_loop inc exc (u # us) =
     (case filter_callback inc exc u of
        (keep, inc', exc') \<Rightarrow>
          (case filter_loop inc' exc' us of
             (kept, inc'', exc'') \<Rightarrow> ((if keep then u # kept else kept), inc'', exc'')))"

definition filterUrlsByPattern ::
  "string list \<Rightarrow> RegExp list option \<Rightarrow> RegExp list option
     \<Rightarrow> string list \<times> RegExp list option \<times> RegExp list option" where
  \<comment> \<open>the list returned, and the patterns as the call leaves them\<close>
  "filterUrlsByPattern urls includePatterns excludePatterns =
     filter_loop includePatterns excludePatterns urls"

definition matches :: "RegExp \<Rightarrow> string \<Rightarrow> bool" where
  \<comment> \<open>the pattern matches somewhere in the string\<close>
  "matches r u = (matcher r u 0 \<noteq> None)"

definition matches_any :: "RegExp list option \<Rightarrow> string \<Rightarrow> bool" where
  \<comment> \<open>one of the patterns of an optional list matches the string\<close>
  "matches_any patterns u =
     (case patterns of None \<Rightarrow> False | Some rs \<Rightarrow> list_ex (\<lambda>r. matches r u) rs)"

definition stateless :: "RegExp list option \<Rightarrow> bool" where
  \<comment> \<open>no pattern of an optional list has the \<open>g\<close> or the \<open>y\<close> flag\<close>
  "stateless patterns =
     (case patterns of None \<Rightarrow> True | Some rs \<Rightarrow> list_all (\<lambda>r. \<not> stateful r) rs)"

fun find_literal :: "string \<Rightarrow> string \<Rightarrow> nat option" where
  \<comment> \<open>the first position at which a text occurs in a string\<close>
  "find_literal lit [] = (if lit = [] then Some 0 else None)"
| "find_literal lit (c # cs) =
     (if prefix lit (c # cs) then Some 0 else map_option Suc (find_literal lit cs))"

definition literal :: "string \<Rightarrow> bool \<Rightarrow> RegExp" where
  \<comment> \<open>a sample pattern: the regular expression of a text without metacharacters, with or
      without the \<open>g\<close> flag, as a regular expression literal creates it\<close>
  "literal lit g =
     \<lparr>stateful = g,
      matcher = (\<lambda>s i. map_option (\<lambda>k. i + k + length lit) (find_literal lit (drop i s))),
      lastIndex = 0\<rparr>"

section \<open>The extractor (\<open>src/web-extractor.ts\<close>)\<close>

text \<open>
  The records that the scraping service returns are typed \<open>any\<close> in the source. The model
  gives them the fields that the code reads, each optional, with the types of the service's
  contract.
\<close>

record DocumentMetadata =
  md_sourceURL :: "string option"
  md_title :: "string option"
  md_description :: "string option"
  md_language :: "string option"
  md_statusCode :: "int option"

record FirecrawlDocument =
  doc_markdown :: "string option"
  doc_html :: "string option"
  doc_text :: "string option"
  doc_content :: "string option"
  doc_url :: "string option"
  doc_excerpt :: "string option"
  doc_metadata :: "DocumentMetadata option"

record PageMetadata =
  scrapedAt :: int
  sourceUrl :: string
  description :: "string option"
  wordCount :: nat
  language :: "string option"
  statusCode :: "int option"

record ExtractedPage =
  title :: string
  content :: string
  page_url :: string
  metadata :: PageMetadata

record FailedExtraction =
  failed_url :: string
  failed_error :: string

record ExtractionStats =
  duration :: int
  successRate :: number
  totalWords :: nat
  avgWordsPerPage :: number

record ExtractionResult =
  pages :: "ExtractedPage list"
  totalPages :: nat
  failed :: "FailedExtraction list"
  stats :: ExtractionStats

record ExtractPageOptions =
  onlyMainContent :: "bool option"
  format :: "string option"
  includeScreenshot :: "bool option"
  waitFor :: "int option"

record ExtractWebsiteOptions = ExtractPageOptions +
  maxPages :: "int option"
  includeSubdomains :: "bool option"
  titlePrefix :: "string option"
  includePatterns :: "RegExp list option"
  excludePatterns :: "RegExp list option"
  maxDepth :: "int option"
  followExternalLinks :: "bool option"


record CrawlOptions =
  limit :: int
  crawl_formats :: "string list"
  crawl_onlyMainContent :: bool
  crawl_maxDepth :: int
  allowExternalLinks :: "bool option"
  allowSubdomains :: "bool option"

definition md_field :: "(DocumentMetadata \<Rightarrow> 'a option) \<Rightarrow> FirecrawlDocument \<Rightarrow> 'a option" where
  \<comment> \<open>\<open>page.metadata?.field\<close>\<close>
  "md_field f page = (case doc_metadata page of None \<Rightarrow> None | Some m \<Rightarrow> f m)"

definition extractContent :: "FirecrawlDocument \<Rightarrow> string \<Rightarrow> string" where
  "extractContent result fmt =
     (if fmt = ''markdown'' then or_string (or_else (doc_markdown result) (doc_content result)) []
      else if fmt = ''html'' then or_string (or_else (doc_html result) (doc_content result)) []
      else if fmt = ''text'' then or_string (or_else (doc_text result) (doc_content result)) []
      else or_string (or_else (doc_markdown result) (doc_content result)) [])"

definition buildMetadata :: "int \<Rightarrow> FirecrawlDocument \<Rightarrow> string \<Rightarrow> PageMetadata" where
  \<comment> \<open>the first argument is the time that \<open>new Date()\<close> reads\<close>
  "buildMetadata now page normalizedUrl =
     (let text = extractContent page ''markdown'';
          count = countWords text
      in \<lparr>scrapedAt = now,
          sourceUrl = normalizedUrl,
          description = or_else (or_else (md_field md_description page) (doc_excerpt page)) None,
          wordCount = count,
          language = or_else (md_field md_language page) (detectLanguage text),
          statusCode = md_field md_statusCode page\<rparr>)"

definition requested_format :: "'a ExtractPageOptions_scheme \<Rightarrow> string" where
  \<comment> \<open>the destructuring default \<open>format = 'markdown'\<close>\<close>
  "requested_format options = (case format options of None \<Rightarrow> ''markdown'' | Some f \<Rightarrow> f)"



definition crawlOptions :: "ExtractWebsiteOptions \<Rightarrow> CrawlOptions" where
  \<comment> \<open>the object \<open>crawlOptions\<close> that \<open>extractWebsite\<close> builds; 10 and 3 are destructuring
      defaults\<close>
  "crawlOptions options =
     \<lparr>limit = min (case maxPages options of None \<Rightarrow> 10 | Some n \<Rightarrow> n) 100,
      crawl_formats = [requested_format options],
      crawl_onlyMainContent = or_default (onlyMainContent options) True,
      crawl_maxDepth = (case maxDepth options of None \<Rightarrow> 3 | Some d \<Rightarrow> d),
      allowExternalLinks =
        (if \<not> or_default (followExternalLinks options) False then Some False else None),
      allowSubdomains =
        (if \<not> or_default (includeSubdomains options) False then Some False else None)\<rparr>"

definition crawl_data :: "FirecrawlDocument list option \<Rightarrow> FirecrawlDocument list" where
  \<comment> \<open>\<open>crawlResult.data || []\<close>\<close>
  "crawl_data d = (case d of None \<Rightarrow> [] | Some records \<Rightarrow> records)"

definition normalizes :: "(string \<Rightarrow> string \<Rightarrow> int) \<Rightarrow> string \<Rightarrow> bool" where
  \<comment> \<open>\<open>normalizeUrl\<close> with the default options returns, rather than throws\<close>
  "normalizes localeCompare u =
     (case normalizeUrl localeCompare no_options u of Inl _ \<Rightarrow> False | Inr _ \<Rightarrow> True)"

definition pageUrl :: "string \<Rightarrow> FirecrawlDocument \<Rightarrow> string" where
  \<comment> \<open>\<open>page.metadata?.sourceURL || url\<close>, the URL of a record in the loop\<close>
  "pageUrl u page = or_string (md_field md_sourceURL page) u"

definition included_urls ::
  "(string \<Rightarrow> string \<Rightarrow> int) \<Rightarrow> string \<Rightarrow> ExtractWebsiteOptions \<Rightarrow> FirecrawlDocument list
     \<Rightarrow> string list" where
  \<comment> \<open>the list \<open>urls\<close> after deduplication and pattern filtering\<close>
  "included_urls localeCompare u options data =
     (let urls = map (\<lambda>page. or_string (or_else (md_field md_sourceURL page) (doc_url page)) u) data;
          urls = deduplicateUrls localeCompare urls None
      in if includePatterns options \<noteq> None \<or> excludePatterns options \<noteq> None
         then fst (filterUrlsByPattern urls (includePatterns options) (excludePatterns options))
         else urls)"

definition process_page ::
  "(string \<Rightarrow> string \<Rightarrow> int) \<Rightarrow> (nat \<Rightarrow> int) \<Rightarrow> string \<Rightarrow> ExtractWebsiteOptions \<Rightarrow> string list
     \<Rightarrow> ExtractedPage list \<times> FailedExtraction list \<times> nat \<Rightarrow> FirecrawlDocument
     \<Rightarrow> ExtractedPage list \<times> FailedExtraction list \<times> nat" where
  \<comment> \<open>the body of the loop over the records, on the lists \<open>pages\<close> and \<open>failed\<close> and the number of
      readings of the clock so far\<close>
  "process_page localeCompare clock u options urls st page =
     (case st of
        (pgs, fls, tick) \<Rightarrow>
          (case normalizeUrl localeCompare no_options (pageUrl u page) of
             Inl e \<Rightarrow>
               (case e of
                  Error errorMessage \<Rightarrow>
                    (pgs,
                     fls @ [\<lparr>failed_url = or_string (doc_url page) ''unknown'',
                                failed_error = errorMessage\<rparr>],
                     tick))
           | Inr normalizedPageUrl \<Rightarrow>
               if pageUrl u page \<notin> set urls then (pgs, fls, tick)
               else
                 (case (case or_else (md_field md_title page) None of
                          Some t \<Rightarrow> Some t
                        | None \<Rightarrow> map_option pathname (URL_parse (pageUrl u page))) of
                    None \<Rightarrow>
                      (pgs,
                       fls @ [\<lparr>failed_url = or_string (doc_url page) ''unknown'',
                                  failed_error = platform_message\<rparr>],
                       Suc tick)
                  | Some t \<Rightarrow>
                      (pgs @
                         [\<lparr>title = (case or_else (titlePrefix options) None of
                                      None \<Rightarrow> t
                                    | Some pre \<Rightarrow> pre @ '' - '' @ t),
                           content = cleanContent (extractContent page (requested_format options)),
                           page_url = normalizedPageUrl,
                           metadata = buildMetadata (clock tick) page normalizedPageUrl\<rparr>],
                       fls, Suc tick))))"

definition extractWebsite ::
  "(string \<Rightarrow> string \<Rightarrow> int) \<Rightarrow> (nat \<Rightarrow> int)
     \<Rightarrow> (string \<Rightarrow> CrawlOptions \<Rightarrow> string + FirecrawlDocument list option)
     \<Rightarrow> string \<Rightarrow> ExtractWebsiteOptions \<Rightarrow> error + ExtractionResult" where
  \<comment> \<open>the arguments before the URL are \<open>localeCompare\<close>, the successive readings of the clock
      and \<open>crawlUrl\<close> of the service: \<open>Inl\<close> is the message of the error it throws, \<open>Inr\<close> the
      field \<open>data\<close> of its answer\<close>
  "extractWebsite localeCompare clock crawlUrl u options =
     (case validateUrl u of
        Inl e \<Rightarrow> Inl e
      | Inr _ \<Rightarrow>
         (case normalizeUrl localeCompare no_options u of
            Inl e \<Rightarrow> Inl e
          | Inr normalizedUrl \<Rightarrow>
             (case crawlUrl u (crawlOptions options) of
                Inl errorMessage \<Rightarrow>
                  Inl (Error (''Failed to extract website '' @ u @ '': '' @ errorMessage))
              | Inr crawlData \<Rightarrow>
                 (let data = crawl_data crawlData;
                      urls = included_urls localeCompare u options data
                  in case foldl (process_page localeCompare clock u options urls) ([], [], Suc 0) data of
                       (pgs, fls, tick) \<Rightarrow>
                         (let elapsed = clock tick - clock 0;
                              total = foldl (\<lambda>sum p. sum + wordCount (metadata p)) 0 pgs
                          in Inr \<lparr>pages = pgs,
                                  totalPages = length pgs + length fls,
                                  failed = fls,
                                  stats =
                                    \<lparr>duration = elapsed,
                                     successRate =
                                       js_mul (js_div (length pgs) (length pgs + length fls)) 100,
                                     totalWords = total,
                                     avgWordsPerPage =
                                       (if 0 < length pgs then js_div total (length pgs)
                                        else Num 0)\<rparr>\<rparr>)))))"

definition unparseable_count ::
  "(string \<Rightarrow> string \<Rightarrow> int) \<Rightarrow> string \<Rightarrow> FirecrawlDocument list \<Rightarrow> nat" where
  \<comment> \<open>the number of records whose URL in the loop fails to parse\<close>
  "unparseable_count localeCompare u data =
     length (filter (\<lambda>p. \<not> normalizes localeCompare (pageUrl u p)) data)"

definition result_counts :: "error + ExtractionResult \<Rightarrow> (nat \<times> nat \<times> nat) option" where
  \<comment> \<open>the number of page records, the number of failure records and \<open>totalPages\<close> of the
      result of a crawl\<close>
  "result_counts res =
     (case res of Inl _ \<Rightarrow> None
      | Inr r \<Rightarrow> Some (length (pages r), length (failed r), totalPages r))"

section \<open>Normal forms of URLs\<close>







definition origin :: "url \<Rightarrow> string" where
  \<comment> \<open>the serialization up to the path\<close>
  "origin v =
     scheme v @ ''://'' @ host v @ (case port v of None \<Rightarrow> [] | Some p \<Rightarrow> CHR '':'' # show_nat p)"







section \<open>Sample inputs\<close>

definition no_page_options :: ExtractPageOptions where
  \<comment> \<open>the options object \<open>{}\<close> of \<open>extractPage\<close>\<close>
  "no_page_options =
     \<lparr>onlyMainContent = None, format = None, includeScreenshot = None, waitFor = None\<rparr>"

definition no_website_options :: ExtractWebsiteOptions where
  \<comment> \<open>the options object \<open>{}\<close> of \<open>extractWebsite\<close>\<close>
  "no_website_options =
     \<lparr>onlyMainContent = None, format = None, includeScreenshot = None, waitFor = None,
      maxPages = None, includeSubdomains = None, titlePrefix = None, includePatterns = None,
      excludePatterns = None, maxDepth = None, followExternalLinks = None\<rparr>"

definition document :: "string \<Rightarrow> string \<Rightarrow> string \<Rightarrow> FirecrawlDocument" where
  \<comment> \<open>a record of the service with a source URL, a markdown payload and an HTML payload\<close>
  "document src md h =
     \<lparr>doc_markdown = Some md, doc_html = Some h, doc_text = None, doc_content = None,
      doc_url = Some src, doc_excerpt = None,
      doc_metadata = Some \<lparr>md_sourceURL = Some src, md_title = None, md_description = None,
                           md_language = None, md_statusCode = None\<rparr>\<rparr>"

definition five_distinct :: "FirecrawlDocument list" where
  \<comment> \<open>five records: four pages with different URLs and one record whose source URL is not a
      URL\<close>
  "five_distinct =
     [document ''https://a.com/x'' ''one'' [], document ''https://a.com/y'' ''two'' [],
      document ''https://a.com/z'' ''three'' [], document ''not a url'' ''four'' [],
      document ''https://a.com/w'' ''five'' []]"

definition five_with_duplicate :: "FirecrawlDocument list" where
  \<comment> \<open>five records: the second page has the URL of the first with a slash at its end\<close>
  "five_with_duplicate =
     [document ''https://a.com/x'' ''one'' [], document ''https://a.com/x/'' ''one'' [],
      document ''https://a.com/y'' ''two'' [], document ''https://a.com/z'' ''three'' [],
      document ''not a url'' ''four'' []]"

definition crawl_returning ::
  "FirecrawlDocument list \<Rightarrow> string \<Rightarrow> CrawlOptions \<Rightarrow> string + FirecrawlDocument list option" where
  \<comment> \<open>a service whose crawl answers with the given records\<close>
  "crawl_returning data u c = Inr (Some data)"

definition crawl_echoing_limit :: "string \<Rightarrow> CrawlOptions \<Rightarrow> string + FirecrawlDocument list option" where
  \<comment> \<open>a service whose crawl fails with the page limit it was given as its message\<close>
  "crawl_echoing_limit u c = Inl (show_nat (nat (limit c)))"

definition ticks :: "nat \<Rightarrow> int" where
  \<comment> \<open>a clock that advances by one between two readings\<close>
  "ticks n = int n"

section \<open>Properties of the content utilities\<close>

lemma set_add_fold: "set (foldl set_add s xs) = set s \<union> set xs"
  by (induction xs arbitrary: s) auto

lemma distinct_add_fold: "distinct s \<Longrightarrow> distinct (foldl set_add s xs)"
  by (induction xs arbitrary: s) auto

lemma set_new_Set: "set (new_Set xs) = set xs"
  by (simp add: new_Set_def set_add_fold)

lemma distinct_new_Set: "distinct (new_Set xs)"
  by (simp add: new_Set_def distinct_add_fold)

lemma length_new_Set: "length (new_Set xs) = card (set xs)"
  using distinct_card [OF distinct_new_Set, of xs] by (simp add: set_new_Set)

lemma split_ws_from_nonempty: "split_ws_from b cur s \<noteq> []"
  by (induction s arbitrary: b cur) auto

lemma split_ws_nonempty: "split_ws s \<noteq> []"
  by (simp add: split_ws_def split_ws_from_nonempty)

lemma length_intersection:
  "length (new_Set (filter (\<lambda>x. x \<in> set (new_Set ys)) (new_Set xs))) = card (set xs \<inter> set ys)"
proof -
  have "set (filter (\<lambda>x. x \<in> set (new_Set ys)) (new_Set xs)) = set xs \<inter> set ys"
    by (auto simp: set_new_Set)
  then show ?thesis by (simp add: length_new_Set)
qed

lemma vocabulary_nonempty: "vocabulary a \<noteq> {}"
  by (simp add: vocabulary_def split_ws_nonempty)

lemma calculateSimilarity_eq:
  "calculateSimilarity a b =
     Num (of_nat (card (vocabulary a \<inter> vocabulary b)) / of_nat (card (vocabulary a \<union> vocabulary b)))"
proof -
  have "card (vocabulary a \<union> vocabulary b) \<noteq> 0"
    using vocabulary_nonempty [of a] by (simp add: vocabulary_def)
  moreover have "length (new_Set (new_Set (split_ws (toLowerCase a)) @ new_Set (split_ws (toLowerCase b))))
     = card (vocabulary a \<union> vocabulary b)"
    by (simp add: length_new_Set set_new_Set vocabulary_def)
  moreover have "length (new_Set (filter (\<lambda>x. x \<in> set (new_Set (split_ws (toLowerCase b))))
                    (new_Set (split_ws (toLowerCase a)))))
     = card (vocabulary a \<inter> vocabulary b)"
    by (simp add: length_intersection vocabulary_def)
  ultimately show ?thesis
    unfolding calculateSimilarity_def Let_def js_div_def by simp
qed

lemma jaccard_ratio_bounds:
  "0 \<le> (of_nat (card (vocabulary a \<inter> vocabulary b)) / of_nat (card (vocabulary a \<union> vocabulary b)) :: rat)
   \<and> (of_nat (card (vocabulary a \<inter> vocabulary b)) / of_nat (card (vocabulary a \<union> vocabulary b)) :: rat) \<le> 1"
proof -
  have f: "finite (vocabulary a \<union> vocabulary b)" by (simp add: vocabulary_def)
  have "card (vocabulary a \<inter> vocabulary b) \<le> card (vocabulary a \<union> vocabulary b)"
    by (rule card_mono [OF f]) auto
  moreover have "0 < card (vocabulary a \<union> vocabulary b)"
    using f vocabulary_nonempty [of a] by (simp add: card_gt_0_iff)
  ultimately show ?thesis by (simp add: divide_le_eq_1)
qed

lemma spec_vocabulary_set: "set (spec_vocabulary a) = vocabulary a - {[]}"
  by (auto simp: spec_vocabulary_def vocabulary_def)

lemma spec_jaccard_eq:
  "spec_jaccard a b =
     (if vocabulary a \<union> vocabulary b \<subseteq> {[]} then 0
      else of_nat (card ((vocabulary a - {[]}) \<inter> (vocabulary b - {[]})))
           / of_nat (card ((vocabulary a - {[]}) \<union> (vocabulary b - {[]}))))"
proof -
  have d: "distinct (spec_vocabulary a)" by (simp add: spec_vocabulary_def)
  have "set (filter (\<lambda>x. x \<in> set (spec_vocabulary b)) (spec_vocabulary a))
          = (vocabulary a - {[]}) \<inter> (vocabulary b - {[]})"
    by (auto simp: spec_vocabulary_set)
  moreover have "distinct (filter (\<lambda>x. x \<in> set (spec_vocabulary b)) (spec_vocabulary a))"
    using d by simp
  ultimately have i: "length (filter (\<lambda>x. x \<in> set (spec_vocabulary b)) (spec_vocabulary a))
          = card ((vocabulary a - {[]}) \<inter> (vocabulary b - {[]}))"
    using distinct_card by metis
  have u: "length (remdups (spec_vocabulary a @ spec_vocabulary b))
          = card ((vocabulary a - {[]}) \<union> (vocabulary b - {[]}))"
    by (simp add: length_remdups_card_conv spec_vocabulary_set)
  have e: "remdups (spec_vocabulary a @ spec_vocabulary b) = []
             \<longleftrightarrow> vocabulary a \<union> vocabulary b \<subseteq> {[]}"
    using spec_vocabulary_set [of a] spec_vocabulary_set [of b]
    by (metis Diff_eq_empty_iff Un_Diff remdups_eq_nil_iff set_append set_empty)
  show ?thesis
    unfolding spec_jaccard_def Let_def i u e by simp
qed

lemma similarity_without_empty_piece:
  assumes "[] \<notin> vocabulary a" and "[] \<notin> vocabulary b"
  shows "calculateSimilarity a b = Num (spec_jaccard a b)"
proof -
  have a: "vocabulary a - {[]} = vocabulary a" and b: "vocabulary b - {[]} = vocabulary b"
    using assms by auto
  have "\<not> vocabulary a \<union> vocabulary b \<subseteq> {[]}"
    using assms vocabulary_nonempty [of a] by auto
  then have "spec_jaccard a b =
      of_nat (card (vocabulary a \<inter> vocabulary b)) / of_nat (card (vocabulary a \<union> vocabulary b))"
    unfolding spec_jaccard_eq a b by (rule if_not_P)
  then show ?thesis
    by (simp only: calculateSimilarity_eq)
qed

lemma similarity_samples:
  "calculateSimilarity [] [] = Num 1 \<and> spec_jaccard [] [] = 0
   \<and> calculateSimilarity ''a '' ''a'' = Num (1 / 2) \<and> spec_jaccard ''a '' ''a'' = 1
   \<and> countWords ''a '' = 1"
  by code_simp

text \<open>
  Claim C8. \<open>calculateSimilarity\<close> always returns a finite number between 0 and 1, and it is
  the Jaccard similarity of the two sets of words whenever \<open>split(/\s+/)\<close> returns no empty
  piece for either document, that is, when neither document is empty or starts or ends with
  white space. The code does not remove the empty piece, as \<open>countWords\<close> does, and counts it
  as a word: two empty documents have similarity 1, where the claim asks for 0, and the
  documents \<open>a\<close> followed by a space and \<open>a\<close>, one word each and the same word, have
  similarity \<open>1/2\<close>, where the Jaccard similarity of their sets of words is 1.
\<close>

theorem C8_calculateSimilarity_empty_piece:
  "(\<exists>r. calculateSimilarity a b = Num r \<and> 0 \<le> r \<and> r \<le> 1)
   \<and> ([] \<notin> vocabulary a \<and> [] \<notin> vocabulary b
        \<longrightarrow> calculateSimilarity a b = Num (spec_jaccard a b))
   \<and> calculateSimilarity [] [] = Num 1 \<and> spec_jaccard [] [] = 0
   \<and> calculateSimilarity ''a '' ''a'' = Num (1 / 2) \<and> spec_jaccard ''a '' ''a'' = 1
   \<and> countWords ''a '' = 1"
  using calculateSimilarity_eq [of a b] jaccard_ratio_bounds [of a b]
        similarity_without_empty_piece [of a b] similarity_samples
  by simp

lemma vocabulary_samples:
  "split_ws (toLowerCase ''Hello world'') = [''hello'', ''world'']
   \<and> split_ws (toLowerCase ''hello there'') = [''hello'', ''there'']
   \<and> spec_jaccard ''Hello world'' ''hello there'' = 1 / 3"
  by code_simp

text \<open>
  Two documents without an empty piece: they share one word of three.
\<close>

theorem C8_calculateSimilarity_witness:
  "[] \<notin> vocabulary ''Hello world'' \<and> [] \<notin> vocabulary ''hello there''
   \<and> calculateSimilarity ''Hello world'' ''hello there'' = Num (1 / 3)"
  using C8_calculateSimilarity_empty_piece [of "''Hello world''" "''hello there''"]
        vocabulary_samples
  by (simp add: vocabulary_def)

section \<open>Properties of the extractor\<close>

lemma foldl_wordCount:
  "foldl (\<lambda>sum p. sum + wordCount (metadata p)) a ps
     = a + sum_list (map (\<lambda>p. wordCount (metadata p)) ps)"
  by (induction ps arbitrary: a) auto

text \<open>
  Claim C1, as the code computes the statistics. For every result of a crawl, \<open>totalWords\<close>
  is the sum of the word counts of the page records, \<open>avgWordsPerPage\<close> is \<open>totalWords\<close>
  divided by the number of page records and 0 when there is none, and \<open>totalPages\<close> is the
  number of page records plus the number of failure records. \<open>successRate\<close> is 100 times the
  share of page records among both when there is a record; when there is none, the division
  of 0 by 0 is not guarded and \<open>successRate\<close> is \<open>NaN\<close>, where the claim asks for 0.
\<close>

theorem C1_extraction_stats:
  assumes "extractWebsite lc clock crawlUrl u options = Inr r"
  shows "successRate (stats r) =
           (if length (pages r) + length (failed r) = 0 then NaN
            else Num (100 * of_nat (length (pages r))
                        / of_nat (length (pages r) + length (failed r))))
       \<and> totalWords (stats r) = sum_list (map (\<lambda>p. wordCount (metadata p)) (pages r))
       \<and> avgWordsPerPage (stats r) =
           (if pages r = [] then Num 0
            else Num (of_nat (totalWords (stats r)) / of_nat (length (pages r))))
       \<and> totalPages r = length (pages r) + length (failed r)"
  using assms
  by (auto simp: extractWebsite_def Let_def js_div_def foldl_wordCount
           split: sum.splits prod.splits)

lemma empty_crawl:
  "extractWebsite byCodeUnits ticks (\<lambda>u c. Inr (Some [])) ''https://example.com'' no_website_options
     = Inr \<lparr>pages = [], totalPages = 0, failed = [],
            stats = \<lparr>duration = 1, successRate = NaN, totalWords = 0, avgWordsPerPage = Num 0\<rparr>\<rparr>"
  by code_simp

text \<open>
  A crawl for which the service returns no record: the success rate of the result is \<open>NaN\<close>.
\<close>

theorem C1_empty_crawl_witness:
  "\<exists>r. extractWebsite byCodeUnits ticks (\<lambda>u c. Inr (Some [])) ''https://example.com''
          no_website_options = Inr r
       \<and> pages r = [] \<and> failed r = [] \<and> totalPages r = 0
       \<and> successRate (stats r) = NaN \<and> successRate (stats r) \<noteq> Num 0
       \<and> avgWordsPerPage (stats r) = Num 0"
  using C1_extraction_stats [OF empty_crawl] empty_crawl by simp




section \<open>Properties of the URL utilities\<close>

lemma parse_sample:
  "URL_parse ''https://Example.com/Path/?b=2&a=1#frag'' =
     Some \<lparr>scheme = ''https'', host = ''example.com'', port = None, path = [''Path'', []],
           query = Some ''b=2&a=1'', fragment = Some ''frag''\<rparr>"
  by code_simp

lemma host_sample: "host_parse (toLowerCase ''example.com'') = Some ''example.com''"
  by code_simp

lemma params_sample: "URLSearchParams ''?b=2&a=1'' = [(''b'', ''2''), (''a'', ''1'')]"
  by code_simp

lemma toString_sample: "params_toString [(''a'', ''1''), (''b'', ''2'')] = ''a=1&b=2''"
  by code_simp

lemma href_sample:
  "href \<lparr>scheme = ''https'', host = ''example.com'', port = None, path = [''Path'', []],
         query = Some ''a=1&b=2'', fragment = None\<rparr> = ''https://example.com/Path/?a=1&b=2''"
  by code_simp

lemma no_slash_sample: "\<not> endsWith ''https://example.com/Path/?a=1&b=2'' ''/''"
  by code_simp

text \<open>
  Claim C2, as the code behaves. In a locale that sorts \<open>a\<close> before \<open>b\<close>, normalizing
  \<open>https://Example.com/Path/?b=2&a=1#frag\<close> with the default options returns
  \<open>https://example.com/Path/?a=1&b=2\<close>: the host is lower-cased, the fragment removed and the
  query sorted, but the path keeps its letter case, and its final slash stays because the
  serialized URL ends with the query, not with a slash. The claim (and the examples of the
  repository's documentation) expect \<open>https://example.com/path?a=1&b=2\<close>.
\<close>

theorem C2_normalize_example:
  "0 < lc ''b'' ''a'' \<Longrightarrow>
     normalizeUrl lc no_options ''https://Example.com/Path/?b=2&a=1#frag''
       = Inr ''https://example.com/Path/?a=1&b=2''
     \<and> normalizeUrl lc no_options ''https://Example.com/Path/?b=2&a=1#frag''
       \<noteq> Inr ''https://example.com/path?a=1&b=2''"
  using no_slash_sample
  by (simp add: normalizeUrl_def validateUrl_def parse_sample protocol_def hostname_def
        no_options_def or_default_def set_hostname_def host_sample set_hash_def search_def
        params_sample js_sort_def set_search_def toString_sample href_sample)

theorem C2_normalize_example_witness:
  "0 < byCodeUnits ''b'' ''a''
   \<and> normalizeUrl byCodeUnits no_options ''https://Example.com/Path/?b=2&a=1#frag''
       = Inr ''https://example.com/Path/?a=1&b=2''"
proof -
  have h: "0 < byCodeUnits ''b'' ''a''" by code_simp
  show ?thesis using h C2_normalize_example [of byCodeUnits] by simp
qed

subsection \<open>Deduplication\<close>

lemma dedup_state_snoc:
  "dedup_state lc opts (urls @ [u]) = dedup_step lc opts (dedup_state lc opts urls) u"
  by (simp add: dedup_state_def)

lemma seen_keys:
  "set (fst (dedup_state lc opts urls)) = {n. \<exists>u \<in> set urls. normalizeUrl lc opts u = Inr n}"
proof (induction urls rule: rev_induct)
  case Nil
  then show ?case by (simp add: dedup_state_def)
next
  case (snoc u urls)
  then show ?case
    by (auto simp: dedup_state_snoc dedup_step_def split: sum.splits)
qed

lemma unique_snoc_invalid:
  "normalizeUrl lc opts u = Inl e \<Longrightarrow>
     snd (dedup_state lc opts (urls @ [u])) = snd (dedup_state lc opts urls)"
  by (simp add: dedup_state_snoc dedup_step_def)

lemma unique_snoc_seen:
  "normalizeUrl lc opts u = Inr n \<Longrightarrow> \<exists>v \<in> set urls. normalizeUrl lc opts v = Inr n \<Longrightarrow>
     snd (dedup_state lc opts (urls @ [u])) = snd (dedup_state lc opts urls)"
  using seen_keys [of lc opts urls] by (simp add: dedup_state_snoc dedup_step_def)

lemma unique_snoc_new:
  "normalizeUrl lc opts u = Inr n \<Longrightarrow> \<forall>v \<in> set urls. normalizeUrl lc opts v \<noteq> Inr n \<Longrightarrow>
     snd (dedup_state lc opts (urls @ [u])) = snd (dedup_state lc opts urls) @ [u]"
  using seen_keys [of lc opts urls] by (auto simp: dedup_state_snoc dedup_step_def)

lemma unique_snoc_cases:
  obtains "snd (dedup_state lc opts (urls @ [u])) = snd (dedup_state lc opts urls)"
        and "(\<exists>e. normalizeUrl lc opts u = Inl e)
             \<or> (\<exists>n. normalizeUrl lc opts u = Inr n
                    \<and> (\<exists>v \<in> set urls. normalizeUrl lc opts v = Inr n))"
  | n where "normalizeUrl lc opts u = Inr n"
        and "\<forall>v \<in> set urls. normalizeUrl lc opts v \<noteq> Inr n"
        and "snd (dedup_state lc opts (urls @ [u])) = snd (dedup_state lc opts urls) @ [u]"
proof (cases "normalizeUrl lc opts u")
  case (Inl e)
  then show ?thesis using that(1) unique_snoc_invalid by blast
next
  case (Inr n)
  show ?thesis
  proof (cases "\<exists>v \<in> set urls. normalizeUrl lc opts v = Inr n")
    case True
    then show ?thesis using that(1) Inr unique_snoc_seen by blast
  next
    case False
    then show ?thesis using that(2) Inr unique_snoc_new by blast
  qed
qed

lemma unique_snoc_eq:
  "snd (dedup_state lc opts (urls @ [u])) =
     snd (dedup_state lc opts urls)
     @ (if \<exists>n. normalizeUrl lc opts u = Inr n \<and> (\<forall>v \<in> set urls. normalizeUrl lc opts v \<noteq> Inr n)
        then [u] else [])"
  by (cases rule: unique_snoc_cases [of lc opts urls u]) auto

lemma unique_subseq: "subseq (snd (dedup_state lc opts urls)) urls"
proof (induction urls rule: rev_induct)
  case Nil
  then show ?case by (simp add: dedup_state_def)
next
  case (snoc u urls)
  show ?case
  proof (cases rule: unique_snoc_cases [of lc opts urls u])
    case 1
    with snoc show ?thesis by (simp add: subseq_rev_drop_many)
  next
    case (2 n)
    with snoc show ?thesis by (simp add: list_emb_append_mono)
  qed
qed

lemma unique_set: "set (snd (dedup_state lc opts urls)) \<subseteq> set urls"
  using list_emb_set [OF unique_subseq [of lc opts urls]] by auto

lemma unique_parse:
  "u \<in> set (snd (dedup_state lc opts urls)) \<Longrightarrow> \<exists>n. normalizeUrl lc opts u = Inr n"
proof (induction urls rule: rev_induct)
  case Nil
  then show ?case by (simp add: dedup_state_def)
next
  case (snoc v urls)
  show ?case
  proof (cases rule: unique_snoc_cases [of lc opts urls v])
    case 1
    with snoc show ?thesis by simp
  next
    case (2 n)
    with snoc show ?thesis by auto
  qed
qed

lemma unique_distinct:
  "distinct (map (normalizeUrl lc opts) (snd (dedup_state lc opts urls)))"
proof (induction urls rule: rev_induct)
  case Nil
  then show ?case by (simp add: dedup_state_def)
next
  case (snoc v urls)
  show ?case
  proof (cases rule: unique_snoc_cases [of lc opts urls v])
    case 1
    with snoc show ?thesis by simp
  next
    case (2 n)
    then have "Inr n \<notin> normalizeUrl lc opts ` set (snd (dedup_state lc opts urls))"
      using unique_set [of lc opts urls] by auto
    with snoc 2 show ?thesis by simp
  qed
qed

lemma unique_keys:
  "{n. \<exists>u \<in> set (snd (dedup_state lc opts urls)). normalizeUrl lc opts u = Inr n}
     = {n. \<exists>u \<in> set urls. normalizeUrl lc opts u = Inr n}"
proof (induction urls rule: rev_induct)
  case Nil
  then show ?case by (simp add: dedup_state_def)
next
  case (snoc v urls)
  show ?case
  proof (cases rule: unique_snoc_cases [of lc opts urls v])
    case 1
    with snoc show ?thesis by auto
  next
    case (2 n)
    with snoc show ?thesis by auto
  qed
qed

lemma unique_prefix:
  "prefix (snd (dedup_state lc opts xs)) (snd (dedup_state lc opts (xs @ ys)))"
proof (induction ys rule: rev_induct)
  case Nil
  then show ?case by simp
next
  case (snoc y ys)
  have "prefix (snd (dedup_state lc opts (xs @ ys)))
          (snd (dedup_state lc opts ((xs @ ys) @ [y])))"
    by (cases rule: unique_snoc_cases [of lc opts "xs @ ys" y]) simp_all
  with snoc show ?case by (metis append.assoc prefix_order.order_trans)
qed

lemma first_seen_kept:
  assumes "normalizeUrl lc opts u = Inr n"
    and "\<forall>v \<in> set xs. normalizeUrl lc opts v \<noteq> Inr n"
  shows "u \<in> set (snd (dedup_state lc opts (xs @ u # ys)))"
proof -
  have "u \<in> set (snd (dedup_state lc opts (xs @ [u])))"
    using assms by (simp add: unique_snoc_new)
  moreover have "prefix (snd (dedup_state lc opts (xs @ [u])))
                   (snd (dedup_state lc opts ((xs @ [u]) @ ys)))"
    by (rule unique_prefix)
  ultimately show ?thesis using set_mono_prefix by fastforce
qed

lemma parse_a_x:
  "URL_parse ''https://a.com/x'' =
     Some \<lparr>scheme = ''https'', host = ''a.com'', port = None, path = [''x''],
           query = None, fragment = None\<rparr>"
  by code_simp

lemma parse_a_x_slash:
  "URL_parse ''https://a.com/x/'' =
     Some \<lparr>scheme = ''https'', host = ''a.com'', port = None, path = [''x'', []],
           query = None, fragment = None\<rparr>"
  by code_simp

lemma parse_A_x:
  "URL_parse ''https://A.COM/x'' =
     Some \<lparr>scheme = ''https'', host = ''a.com'', port = None, path = [''x''],
           query = None, fragment = None\<rparr>"
  by code_simp

lemma host_a: "host_parse (toLowerCase ''a.com'') = Some ''a.com''"
  by code_simp

lemma href_a_x:
  "href \<lparr>scheme = ''https'', host = ''a.com'', port = None, path = [''x''],
         query = None, fragment = None\<rparr> = ''https://a.com/x''"
  by code_simp

lemma href_a_x_slash:
  "href \<lparr>scheme = ''https'', host = ''a.com'', port = None, path = [''x'', []],
         query = None, fragment = None\<rparr> = ''https://a.com/x/''"
  by code_simp

lemma ends_a_x: "\<not> endsWith ''https://a.com/x'' ''/''"
  by code_simp

lemma ends_a_x_slash: "endsWith ''https://a.com/x/'' ''/''"
  by code_simp

lemma normalize_a_x: "normalizeUrl lc no_options ''https://a.com/x'' = Inr ''https://a.com/x''"
  using ends_a_x
  by (simp add: normalizeUrl_def validateUrl_def parse_a_x protocol_def hostname_def
        no_options_def or_default_def set_hostname_def host_a set_hash_def search_def href_a_x)

lemma normalize_a_x_slash:
  "normalizeUrl lc no_options ''https://a.com/x/'' = Inr ''https://a.com/x''"
  using ends_a_x_slash
  by (simp add: normalizeUrl_def validateUrl_def parse_a_x_slash protocol_def hostname_def
        no_options_def or_default_def set_hostname_def host_a set_hash_def search_def
        href_a_x_slash)

lemma normalize_A_x: "normalizeUrl lc no_options ''https://A.COM/x'' = Inr ''https://a.com/x''"
  using ends_a_x
  by (simp add: normalizeUrl_def validateUrl_def parse_A_x protocol_def hostname_def
        no_options_def or_default_def set_hostname_def host_a set_hash_def search_def href_a_x)

lemma normalize_not_a_url: "normalizeUrl lc no_options ''not a url'' = Inl (Error
    ''Invalid URL: not a url - Invalid URL'')"
proof -
  have "URL_parse ''not a url'' = None" by code_simp
  then show ?thesis by (simp add: normalizeUrl_def validateUrl_def platform_message_def)
qed

lemma dedup_scenario:
  "deduplicateUrls lc [''https://a.com/x'', ''https://a.com/x/'', ''https://A.COM/x''] None
     = [''https://a.com/x'']"
  by (simp add: deduplicateUrls_def dedup_state_def dedup_step_def options_or_default_def
        normalize_a_x normalize_a_x_slash normalize_A_x)

text \<open>
  Claim C5. For every list of URLs and every choice of options, with \<open>key\<close> for
  \<open>normalizeUrl\<close> under these options: the keys of the URLs that \<open>deduplicateUrls\<close> returns are
  pairwise different; every URL returned has a key, so a URL that fails to parse is dropped;
  the keys of the result are the keys of the input; the result is a subsequence of the input,
  so the URLs keep their original form and order; the first URL of the input with a given key
  is in the result; a URL put at the end of the input is put at the end of the result when it
  has a key that no earlier URL has, and changes nothing otherwise; and the three spellings of
  \<open>https://a.com/x\<close> are reduced to the first one.
\<close>

theorem C5_deduplicateUrls:
  "distinct (map (normalizeUrl lc (options_or_default options)) (deduplicateUrls lc urls options))
   \<and> (\<forall>u \<in> set (deduplicateUrls lc urls options).
         \<exists>n. normalizeUrl lc (options_or_default options) u = Inr n)
   \<and> {n. \<exists>u \<in> set (deduplicateUrls lc urls options).
            normalizeUrl lc (options_or_default options) u = Inr n}
       = {n. \<exists>u \<in> set urls. normalizeUrl lc (options_or_default options) u = Inr n}
   \<and> subseq (deduplicateUrls lc urls options) urls
   \<and> (\<forall>xs u ys n. urls = xs @ u # ys
         \<and> normalizeUrl lc (options_or_default options) u = Inr n
         \<and> (\<forall>v \<in> set xs. normalizeUrl lc (options_or_default options) v \<noteq> Inr n)
         \<longrightarrow> u \<in> set (deduplicateUrls lc urls options))
   \<and> deduplicateUrls lc (urls @ [w]) options
       = deduplicateUrls lc urls options
         @ (if \<exists>n. normalizeUrl lc (options_or_default options) w = Inr n
                 \<and> (\<forall>v \<in> set urls. normalizeUrl lc (options_or_default options) v \<noteq> Inr n)
            then [w] else [])
   \<and> deduplicateUrls lc [''https://a.com/x'', ''https://a.com/x/'', ''https://A.COM/x''] None
       = [''https://a.com/x'']"
proof -
  let ?o = "options_or_default options"
  have a: "distinct (map (normalizeUrl lc ?o) (deduplicateUrls lc urls options))"
    by (simp add: deduplicateUrls_def unique_distinct)
  have b: "\<forall>u \<in> set (deduplicateUrls lc urls options). \<exists>n. normalizeUrl lc ?o u = Inr n"
    by (simp add: deduplicateUrls_def unique_parse)
  have c: "{n. \<exists>u \<in> set (deduplicateUrls lc urls options). normalizeUrl lc ?o u = Inr n}
             = {n. \<exists>u \<in> set urls. normalizeUrl lc ?o u = Inr n}"
    unfolding deduplicateUrls_def by (rule unique_keys)
  have d: "subseq (deduplicateUrls lc urls options) urls"
    by (simp add: deduplicateUrls_def unique_subseq)
  have e: "\<forall>xs u ys n. urls = xs @ u # ys \<and> normalizeUrl lc ?o u = Inr n
             \<and> (\<forall>v \<in> set xs. normalizeUrl lc ?o v \<noteq> Inr n)
             \<longrightarrow> u \<in> set (deduplicateUrls lc urls options)"
    using first_seen_kept [of lc ?o] by (auto simp: deduplicateUrls_def)
  have f: "deduplicateUrls lc (urls @ [w]) options
             = deduplicateUrls lc urls options
               @ (if \<exists>n. normalizeUrl lc ?o w = Inr n
                       \<and> (\<forall>v \<in> set urls. normalizeUrl lc ?o v \<noteq> Inr n)
                  then [w] else [])"
    unfolding deduplicateUrls_def by (rule unique_snoc_eq)
  from a b c d e f dedup_scenario [of lc] show ?thesis by blast
qed

theorem C5_deduplicateUrls_witness:
  "deduplicateUrls byCodeUnits
     [''https://a.com/x'', ''not a url'', ''https://a.com/x/'', ''https://A.COM/x''] None
     = [''https://a.com/x'']
   \<and> subseq [''https://a.com/x'']
        [''https://a.com/x'', ''not a url'', ''https://a.com/x/'', ''https://A.COM/x'']
   \<and> distinct (map (normalizeUrl byCodeUnits no_options) [''https://a.com/x''])"
proof -
  let ?urls = "[''https://a.com/x'', ''not a url'', ''https://a.com/x/'', ''https://A.COM/x'']"
  have ev: "deduplicateUrls byCodeUnits ?urls None = [''https://a.com/x'']"
    by (simp add: deduplicateUrls_def dedup_state_def dedup_step_def options_or_default_def
          normalize_a_x normalize_a_x_slash normalize_A_x normalize_not_a_url)
  have "subseq (deduplicateUrls byCodeUnits ?urls None) ?urls
        \<and> distinct (map (normalizeUrl byCodeUnits (options_or_default None))
                       (deduplicateUrls byCodeUnits ?urls None))"
    using C5_deduplicateUrls [of byCodeUnits None ?urls] by blast
  then show ?thesis
    unfolding ev by (simp add: options_or_default_def ev)
qed

subsection \<open>Pattern filtering\<close>

lemma test_stateless: "\<not> stateful r \<Longrightarrow> RegExp_test r u = (matches r u, r)"
  by (simp add: RegExp_test_def matches_def)

lemma some_test_stateless:
  "list_all (\<lambda>r. \<not> stateful r) rs \<Longrightarrow> some_test rs u = (list_ex (\<lambda>r. matches r u) rs, rs)"
  by (induction rs) (auto simp: test_stateless split: bool.splits)

lemma callback_stateless:
  "stateless inc \<Longrightarrow> stateless exc \<Longrightarrow>
   filter_callback inc exc u =
     (\<not> matches_any exc u \<and> (inc = None \<or> inc = Some [] \<or> matches_any inc u), inc, exc)"
  by (auto simp: filter_callback_def stateless_def matches_any_def some_test_stateless
           split: option.splits bool.splits)

lemma loop_stateless:
  "stateless inc \<Longrightarrow> stateless exc \<Longrightarrow>
   filter_loop inc exc urls =
     (filter (\<lambda>u. \<not> matches_any exc u \<and> (inc = None \<or> inc = Some [] \<or> matches_any inc u)) urls,
      inc, exc)"
  by (induction urls) (simp_all add: callback_stateless)

text \<open>
  Patterns without the \<open>g\<close> and \<open>y\<close> flags. \<open>filterUrlsByPattern\<close> returns the URLs of the
  input, in their order, that match no exclude pattern and, when there are include patterns,
  match one of them; it leaves the patterns as they are; and when every URL matches an
  exclude pattern the result is empty, whatever the include patterns are.
\<close>

lemma filterUrlsByPattern_stateless:
  assumes "stateless inc" and "stateless exc"
  shows "filterUrlsByPattern urls inc exc =
           (filter (\<lambda>u. \<not> matches_any exc u
                       \<and> (inc = None \<or> inc = Some []
                          \<or> matches_any inc u)) urls,
            inc, exc)
       \<and> subseq (fst (filterUrlsByPattern urls inc exc)) urls
       \<and> ((\<forall>u \<in> set urls. matches_any exc u)
            \<longrightarrow> fst (filterUrlsByPattern urls inc exc) = [])"
  using assms by (simp add: filterUrlsByPattern_def loop_stateless)

lemma filter_sample:
  "fst (filterUrlsByPattern
          [''https://a.com/api/x'', ''https://a.com/blog/api/'', ''https://a.com/z'']
          (Some [literal ''/api/'' False]) (Some [literal ''/blog/'' False]))
     = [''https://a.com/api/x'']"
  by code_simp

lemma filter_sample_all_excluded:
  "fst (filterUrlsByPattern
          [''https://a.com/api/x'', ''https://a.com/blog/api/'', ''https://a.com/z'']
          (Some [literal ''/api/'' False]) (Some [literal ''a.com'' False])) = []"
  by code_simp

lemma filterUrlsByPattern_stateless_sample:
  "stateless (Some [literal ''/api/'' False]) \<and> stateless (Some [literal ''/blog/'' False])
   \<and> fst (filterUrlsByPattern
          [''https://a.com/api/x'', ''https://a.com/blog/api/'', ''https://a.com/z'']
          (Some [literal ''/api/'' False]) (Some [literal ''/blog/'' False]))
       = [''https://a.com/api/x'']
   \<and> snd (filterUrlsByPattern
          [''https://a.com/api/x'', ''https://a.com/blog/api/'', ''https://a.com/z'']
          (Some [literal ''/api/'' False]) (Some [literal ''/blog/'' False]))
       = (Some [literal ''/api/'' False], Some [literal ''/blog/'' False])
   \<and> fst (filterUrlsByPattern
          [''https://a.com/api/x'', ''https://a.com/blog/api/'', ''https://a.com/z'']
          (Some [literal ''/api/'' False]) (Some [literal ''a.com'' False])) = []"
proof -
  have s: "stateless (Some [literal lit False])" for lit
    by (simp add: stateless_def literal_def)
  have "snd (filterUrlsByPattern
          [''https://a.com/api/x'', ''https://a.com/blog/api/'', ''https://a.com/z'']
          (Some [literal ''/api/'' False]) (Some [literal ''/blog/'' False]))
       = (Some [literal ''/api/'' False], Some [literal ''/blog/'' False])"
    using filterUrlsByPattern_stateless [OF s s] by simp
  then show ?thesis
    using s filter_sample filter_sample_all_excluded by simp
qed

text \<open>
  Claim C6. The filter tests a URL with \<open>RegExp.prototype.test\<close>. A pattern with the \<open>g\<close>
  flag remembers in \<open>lastIndex\<close> where its last match ended, and \<open>test\<close> resumes there: of two
  equal URLs that both match the exclude pattern \<open>/x/g\<close>, the first is dropped and the second
  is kept, where the claim asks for the empty list; the same pattern without the flag drops
  both. The filter is not pure either: after a call on the one URL, the caller's pattern has
  \<open>lastIndex\<close> 15 instead of 0.
\<close>

theorem C6_global_pattern_keeps_excluded_url:
  "matches_any (Some [literal ''x'' True]) ''https://a.com/x''
   \<and> fst (filterUrlsByPattern [''https://a.com/x'', ''https://a.com/x''] None
            (Some [literal ''x'' True])) = [''https://a.com/x'']
   \<and> fst (filterUrlsByPattern [''https://a.com/x'', ''https://a.com/x''] None
            (Some [literal ''x'' False])) = []
   \<and> lastIndex (literal ''x'' True) = 0
   \<and> map lastIndex (the (snd (snd (filterUrlsByPattern [''https://a.com/x''] None
            (Some [literal ''x'' True]))))) = [15]"
  by code_simp

section \<open>Properties of the crawl\<close>

lemma normalize_parses:
  "normalizeUrl lc opts s = Inr n \<Longrightarrow> \<exists>p. URL_parse s = Some p"
  by (auto simp: normalizeUrl_def validateUrl_def split: option.splits sum.splits if_splits)

lemma process_page_invalid:
  "\<not> normalizes lc (pageUrl u page) \<Longrightarrow>
   \<exists>f. process_page lc clock u options urls (pgs, fls, tick) page = (pgs, fls @ [f], tick)"
  by (auto simp: process_page_def normalizes_def split: sum.splits error.splits)

lemma process_page_skipped:
  "normalizes lc (pageUrl u page) \<Longrightarrow> pageUrl u page \<notin> set urls \<Longrightarrow>
   process_page lc clock u options urls st page = st"
  by (auto simp: process_page_def normalizes_def split: sum.splits prod.splits)

lemma process_page_included:
  "normalizes lc (pageUrl u page) \<Longrightarrow> pageUrl u page \<in> set urls \<Longrightarrow>
   \<exists>p. process_page lc clock u options urls (pgs, fls, tick) page = (pgs @ [p], fls, Suc tick)"
  by (auto simp: process_page_def normalizes_def split: sum.splits option.splits
           dest: normalize_parses)

lemma process_pages_lengths:
  "foldl (process_page lc clock u options urls) (pgs, fls, tick) data = (pgs', fls', tick') \<Longrightarrow>
   length pgs' = length pgs
       + length (filter (\<lambda>p. normalizes lc (pageUrl u p) \<and> pageUrl u p \<in> set urls) data)
   \<and> length fls' = length fls + length (filter (\<lambda>p. \<not> normalizes lc (pageUrl u p)) data)"
proof (induction data arbitrary: pgs fls tick)
  case Nil
  then show ?case by simp
next
  case (Cons page data)
  consider (bad) "\<not> normalizes lc (pageUrl u page)"
    | (skip) "normalizes lc (pageUrl u page)" "pageUrl u page \<notin> set urls"
    | (keep) "normalizes lc (pageUrl u page)" "pageUrl u page \<in> set urls"
    by blast
  then show ?case
  proof cases
    case bad
    then obtain f where
      "process_page lc clock u options urls (pgs, fls, tick) page = (pgs, fls @ [f], tick)"
      using process_page_invalid by blast
    with Cons.prems Cons.IH [of pgs "fls @ [f]" tick] bad show ?thesis by simp
  next
    case skip
    then have "process_page lc clock u options urls (pgs, fls, tick) page = (pgs, fls, tick)"
      by (rule process_page_skipped)
    with Cons.prems Cons.IH [of pgs fls tick] skip show ?thesis by simp
  next
    case keep
    then obtain p where
      "process_page lc clock u options urls (pgs, fls, tick) page = (pgs @ [p], fls, Suc tick)"
      using process_page_included by blast
    with Cons.prems Cons.IH [of "pgs @ [p]" fls "Suc tick"] keep show ?thesis by simp
  qed
qed

lemma extractWebsite_counts:
  assumes "extractWebsite lc clock crawlUrl u options = Inr r"
    and "crawlUrl u (crawlOptions options) = Inr d"
  shows "length (pages r) =
           length (filter (\<lambda>p. normalizes lc (pageUrl u p)
                       \<and> pageUrl u p \<in> set (included_urls lc u options (crawl_data d)))
                     (crawl_data d))
       \<and> length (failed r) = length (filter (\<lambda>p. \<not> normalizes lc (pageUrl u p)) (crawl_data d))
       \<and> totalPages r = length (pages r) + length (failed r)"
  using assms
    process_pages_lengths [of lc clock u options "included_urls lc u options (crawl_data d)"
      "[]" "[]" "Suc 0" "crawl_data d"]
  by (auto simp: extractWebsite_def Let_def split: sum.splits prod.splits)

lemma extractWebsite_returns:
  assumes "normalizes lc u" and "crawlUrl u (crawlOptions options) = Inr d"
  shows "\<exists>r. extractWebsite lc clock crawlUrl u options = Inr r"
  using assms
  by (auto simp: extractWebsite_def Let_def normalizes_def normalizeUrl_def
           split: sum.splits prod.splits)

lemma filter_three_parts:
  "length (filter (\<lambda>p. A p \<and> B p) xs) + length (filter (\<lambda>p. \<not> A p) xs)
     + length (filter (\<lambda>p. A p \<and> \<not> B p) xs) = length xs"
  by (induction xs) auto

lemma dedup_keeps_all:
  assumes same: "\<forall>a \<in> set L. \<forall>b \<in> set L.
             normalizeUrl lc opts a = Inr n \<and> normalizeUrl lc opts b = Inr n \<longrightarrow> a = b"
    and k: "normalizeUrl lc opts s = Inr n" and mem: "s \<in> set L"
  shows "s \<in> set (snd (dedup_state lc opts L))"
proof -
  have "\<exists>x \<in> set L. normalizeUrl lc opts x = Inr n" using k mem by blast
  then obtain xs v ys where split: "L = xs @ v # ys" and kv: "normalizeUrl lc opts v = Inr n"
      and first: "\<forall>y \<in> set xs. normalizeUrl lc opts y \<noteq> Inr n"
    using split_list_first_prop [of L "\<lambda>x. normalizeUrl lc opts x = Inr n"] by blast
  have "v \<in> set (snd (dedup_state lc opts (xs @ v # ys)))"
    using kv first by (rule first_seen_kept)
  moreover have "v = s" using same split kv k mem by auto
  ultimately show ?thesis using split by simp
qed

lemma included_no_patterns:
  assumes "includePatterns options = None" and "excludePatterns options = None"
    and "\<forall>p \<in> set data. \<exists>s. md_field md_sourceURL p = Some s \<and> s \<noteq> []"
  shows "included_urls lc u options data = deduplicateUrls lc (map (pageUrl u) data) None"
proof -
  have eq: "map (\<lambda>page. or_string (or_else (md_field md_sourceURL page) (doc_url page)) u) data
          = map (pageUrl u) data"
    using assms(3) by (auto simp: pageUrl_def or_string_def or_else_def)
  show ?thesis unfolding included_urls_def Let_def eq using assms(1,2) by simp
qed

lemma normalize_y: "normalizeUrl byCodeUnits no_options ''https://a.com/y'' = Inr ''https://a.com/y''"
  by code_simp

lemma normalize_z: "normalizeUrl byCodeUnits no_options ''https://a.com/z'' = Inr ''https://a.com/z''"
  by code_simp

lemma normalize_w: "normalizeUrl byCodeUnits no_options ''https://a.com/w'' = Inr ''https://a.com/w''"
  by code_simp

lemmas sample_normalizations =
  normalize_a_x normalize_a_x_slash normalize_A_x normalize_not_a_url
  normalize_y normalize_z normalize_w

lemma pageUrl_document: "pageUrl u (document src md h) = (if src = [] then u else src)"
  by (simp add: pageUrl_def document_def md_field_def or_string_def)

lemma source_document:
  "or_string (or_else (md_field md_sourceURL (document src md h)) (doc_url (document src md h))) u
     = (if src = [] then u else src)"
  by (simp add: document_def md_field_def or_string_def or_else_def)

lemma included_five_distinct:
  "included_urls byCodeUnits ''https://a.com/x'' no_website_options five_distinct
     = [''https://a.com/x'', ''https://a.com/y'', ''https://a.com/z'', ''https://a.com/w'']"
  by (simp add: included_urls_def Let_def five_distinct_def source_document no_website_options_def
        deduplicateUrls_def dedup_state_def dedup_step_def options_or_default_def
        sample_normalizations)

lemma included_five_with_duplicate:
  "included_urls byCodeUnits ''https://a.com/x'' no_website_options five_with_duplicate
     = [''https://a.com/x'', ''https://a.com/y'', ''https://a.com/z'']"
  by (simp add: included_urls_def Let_def five_with_duplicate_def source_document
        no_website_options_def deduplicateUrls_def dedup_state_def dedup_step_def
        options_or_default_def sample_normalizations)

lemma seed_normalizes: "normalizes byCodeUnits ''https://a.com/x''"
  by (simp add: normalizes_def normalize_a_x)

lemma validate_of_normalizes:
  "normalizes lc u \<Longrightarrow> \<exists>v n. validateUrl u = Inr v \<and> normalizeUrl lc no_options u = Inr n"
  by (auto simp: normalizes_def normalizeUrl_def split: sum.splits)

text \<open>
  Claim C7. Let the seed URL be one that \<open>extractWebsite\<close> accepts, and let the caller ask
  for \<open>n\<close> pages. The limit in the options of the crawl is the smaller of \<open>n\<close> and 100: 100
  for a request above 100, the request itself otherwise. These options are the ones that
  the service receives, with the seed URL: whatever failure message the service computes
  from its two arguments, the error of \<open>extractWebsite\<close> carries the message computed from
  the seed URL and these options; when the service fails for them, \<open>extractWebsite\<close> fails
  with its message, and when it answers for them, \<open>extractWebsite\<close> returns a result; and a
  service that fails for every other URL and every other limit gives the same result.
\<close>

theorem C7_page_limit_clamped:
  assumes "normalizes lc u" and "maxPages options = Some n"
  shows "limit (crawlOptions options) = min n 100
     \<and> (100 < n \<longrightarrow> limit (crawlOptions options) = 100)
     \<and> (n \<le> 100 \<longrightarrow> limit (crawlOptions options) = n)
     \<and> extractWebsite lc clock (\<lambda>v c. Inl (probe v c)) u options
         = Inl (Error (''Failed to extract website '' @ u @ '': ''
                       @ probe u (crawlOptions options)))
     \<and> (\<forall>msg. crawlUrl u (crawlOptions options) = Inl msg
          \<longrightarrow> extractWebsite lc clock crawlUrl u options
              = Inl (Error (''Failed to extract website '' @ u @ '': '' @ msg)))
     \<and> (\<forall>d. crawlUrl u (crawlOptions options) = Inr d
          \<longrightarrow> (\<exists>r. extractWebsite lc clock crawlUrl u options = Inr r))
     \<and> extractWebsite lc clock crawlUrl u options
         = extractWebsite lc clock
             (\<lambda>v c. if v = u \<and> limit c = min n 100 then crawlUrl v c else Inl []) u options"
proof -
  obtain v m where v: "validateUrl u = Inr v" "normalizeUrl lc no_options u = Inr m"
    using validate_of_normalizes [OF assms(1)] by blast
  have l: "limit (crawlOptions options) = min n 100"
    using assms(2) by (simp add: crawlOptions_def)
  have a: "extractWebsite lc clock (\<lambda>v c. Inl (probe v c)) u options
         = Inl (Error (''Failed to extract website '' @ u @ '': ''
                       @ probe u (crawlOptions options)))"
    using v by (simp add: extractWebsite_def)
  have b: "\<forall>msg. crawlUrl u (crawlOptions options) = Inl msg
          \<longrightarrow> extractWebsite lc clock crawlUrl u options
              = Inl (Error (''Failed to extract website '' @ u @ '': '' @ msg))"
    using v by (simp add: extractWebsite_def)
  have c: "\<forall>d. crawlUrl u (crawlOptions options) = Inr d
          \<longrightarrow> (\<exists>r. extractWebsite lc clock crawlUrl u options = Inr r)"
    using v by (auto simp: extractWebsite_def Let_def split: prod.splits)
  have d: "extractWebsite lc clock crawlUrl u options
         = extractWebsite lc clock
             (\<lambda>v c. if v = u \<and> limit c = min n 100 then crawlUrl v c else Inl []) u options"
    using l by (simp add: extractWebsite_def)
  from l a b c d show ?thesis by simp
qed

lemma show_limits: "show_nat (nat 100) = ''100'' \<and> show_nat (nat 7) = ''7''"
  by code_simp

text \<open>
  A service that fails with the limit it received as its message: for a request of 500
  pages the message is \<open>100\<close>, for a request of 7 pages it is \<open>7\<close>.
\<close>

theorem C7_page_limit_witness:
  "normalizes byCodeUnits ''https://a.com/x''
   \<and> maxPages (no_website_options\<lparr>maxPages := Some 500\<rparr>) = Some 500
   \<and> limit (crawlOptions (no_website_options\<lparr>maxPages := Some 500\<rparr>)) = 100
   \<and> extractWebsite byCodeUnits ticks crawl_echoing_limit ''https://a.com/x''
        (no_website_options\<lparr>maxPages := Some 500\<rparr>)
       = Inl (Error ''Failed to extract website https://a.com/x: 100'')
   \<and> limit (crawlOptions (no_website_options\<lparr>maxPages := Some 7\<rparr>)) = 7
   \<and> extractWebsite byCodeUnits ticks crawl_echoing_limit ''https://a.com/x''
        (no_website_options\<lparr>maxPages := Some 7\<rparr>)
       = Inl (Error ''Failed to extract website https://a.com/x: 7'')"
proof -
  have e: "crawl_echoing_limit = (\<lambda>v c. Inl (show_nat (nat (limit c))))"
    by (simp add: crawl_echoing_limit_def [abs_def])
  have m: "maxPages (no_website_options\<lparr>maxPages := Some k\<rparr>) = Some k" for k
    by simp
  have a: "limit (crawlOptions (no_website_options\<lparr>maxPages := Some 500\<rparr>)) = 100
     \<and> extractWebsite byCodeUnits ticks crawl_echoing_limit ''https://a.com/x''
          (no_website_options\<lparr>maxPages := Some 500\<rparr>)
         = Inl (Error ''Failed to extract website https://a.com/x: 100'')"
    using C7_page_limit_clamped
            [OF seed_normalizes m [of 500], of ticks "\<lambda>v c. show_nat (nat (limit c))"]
          show_limits
    by (simp add: e)
  have b: "limit (crawlOptions (no_website_options\<lparr>maxPages := Some 7\<rparr>)) = 7
     \<and> extractWebsite byCodeUnits ticks crawl_echoing_limit ''https://a.com/x''
          (no_website_options\<lparr>maxPages := Some 7\<rparr>)
         = Inl (Error ''Failed to extract website https://a.com/x: 7'')"
    using C7_page_limit_clamped
            [OF seed_normalizes m [of 7], of ticks "\<lambda>v c. show_nat (nat (limit c))"]
          show_limits
    by (simp add: e)
  from a b seed_normalizes show ?thesis by simp
qed

lemma crawl_counts:
  assumes "normalizes lc u"
  shows "result_counts (extractWebsite lc clock (crawl_returning data) u options) =
           Some (length (filter (\<lambda>p. normalizes lc (pageUrl u p)
                             \<and> pageUrl u p \<in> set (included_urls lc u options data)) data),
                 unparseable_count lc u data,
                 length (filter (\<lambda>p. normalizes lc (pageUrl u p)
                             \<and> pageUrl u p \<in> set (included_urls lc u options data)) data)
                 + unparseable_count lc u data)"
proof -
  have c: "crawl_returning data u (crawlOptions options) = Inr (Some data)"
    by (simp add: crawl_returning_def)
  obtain r where r: "extractWebsite lc clock (crawl_returning data) u options = Inr r"
    using extractWebsite_returns [of lc u "crawl_returning data" options "Some data" clock]
          assms c
    by blast
  show ?thesis
    using extractWebsite_counts [of lc clock "crawl_returning data" u options r "Some data"] r c
    by (simp add: result_counts_def crawl_data_def unparseable_count_def)
qed

lemma crawl_five_with_duplicate:
  "result_counts (extractWebsite byCodeUnits ticks (crawl_returning five_with_duplicate)
                    ''https://a.com/x'' no_website_options) = Some (3, 1, 4)"
  unfolding crawl_counts [OF seed_normalizes] included_five_with_duplicate
  by (simp add: unparseable_count_def five_with_duplicate_def pageUrl_document normalizes_def
        sample_normalizations)

lemma crawl_five_distinct:
  "result_counts (extractWebsite byCodeUnits ticks (crawl_returning five_distinct)
                    ''https://a.com/x'' no_website_options) = Some (4, 1, 5)"
  unfolding crawl_counts [OF seed_normalizes] included_five_distinct
  by (simp add: unparseable_count_def five_distinct_def pageUrl_document normalizes_def
        sample_normalizations)

text \<open>
  Claim C3, with what the count of four page records needs. The seed URL is valid and the
  service answers with five records. Every record has a non-empty source URL, exactly one of
  them fails to parse, no two source URLs that are written differently have the same
  normalized form, and the caller gives no include and no exclude patterns. Then the crawl
  returns a result with four page records and one failure record, and \<open>totalPages\<close> is 5.
\<close>

theorem C3_one_unparseable_of_five:
  assumes seed: "normalizes lc u"
    and crawl: "crawlUrl u (crawlOptions options) = Inr (Some data)"
    and five: "length data = 5"
    and nopat: "includePatterns options = None" "excludePatterns options = None"
    and src: "\<forall>p \<in> set data. \<exists>s. md_field md_sourceURL p = Some s \<and> s \<noteq> []"
    and one: "unparseable_count lc u data = 1"
    and same: "\<forall>p \<in> set data. \<forall>q \<in> set data. normalizes lc (pageUrl u p)
                 \<and> normalizeUrl lc no_options (pageUrl u p)
                     = normalizeUrl lc no_options (pageUrl u q)
                 \<longrightarrow> pageUrl u p = pageUrl u q"
  shows "\<exists>r. extractWebsite lc clock crawlUrl u options = Inr r
           \<and> length (pages r) = 4 \<and> length (failed r) = 1 \<and> totalPages r = 5
           \<and> totalPages r = length (pages r) + length (failed r)"
proof -
  obtain r where r: "extractWebsite lc clock crawlUrl u options = Inr r"
    using extractWebsite_returns [where lc = lc and u = u and crawlUrl = crawlUrl
            and options = options and d = "Some data" and clock = clock] seed crawl
    by blast
  let ?urls = "included_urls lc u options data"
  have incl: "pageUrl u p \<in> set ?urls"
    if p: "p \<in> set data" and v: "normalizes lc (pageUrl u p)" for p
  proof -
    obtain n where n: "normalizeUrl lc no_options (pageUrl u p) = Inr n"
      using v by (auto simp: normalizes_def split: sum.splits)
    have "\<forall>a \<in> set (map (pageUrl u) data). \<forall>b \<in> set (map (pageUrl u) data).
             normalizeUrl lc no_options a = Inr n \<and> normalizeUrl lc no_options b = Inr n
             \<longrightarrow> a = b"
      using same by (auto simp: normalizes_def)
    then have "pageUrl u p \<in> set (snd (dedup_state lc no_options (map (pageUrl u) data)))"
      using n p by (intro dedup_keeps_all [where n = n]) auto
    then show ?thesis
      by (simp add: included_no_patterns [OF nopat src] deduplicateUrls_def
            options_or_default_def)
  qed
  have "filter (\<lambda>p. normalizes lc (pageUrl u p) \<and> pageUrl u p \<in> set ?urls) data
          = filter (\<lambda>p. normalizes lc (pageUrl u p)) data"
    using incl by (intro filter_cong) auto
  moreover have "length (filter (\<lambda>p. normalizes lc (pageUrl u p)) data)
                   + length (filter (\<lambda>p. \<not> normalizes lc (pageUrl u p)) data) = length data"
    using sum_length_filter_compl [of "\<lambda>p. normalizes lc (pageUrl u p)" data] by simp
  ultimately have "length (pages r) = 4 \<and> length (failed r) = 1
                   \<and> totalPages r = length (pages r) + length (failed r)"
    using extractWebsite_counts [where lc = lc and u = u and crawlUrl = crawlUrl
            and options = options and d = "Some data" and clock = clock and r = r]
          r crawl one five
    by (simp add: crawl_data_def unparseable_count_def)
  with r show ?thesis by simp
qed

theorem C3_one_unparseable_witness:
  "length five_distinct = 5
   \<and> unparseable_count byCodeUnits ''https://a.com/x'' five_distinct = 1
   \<and> result_counts (extractWebsite byCodeUnits ticks (crawl_returning five_distinct)
                       ''https://a.com/x'' no_website_options) = Some (4, 1, 5)"
proof -
  have five: "length five_distinct = 5" by (simp add: five_distinct_def)
  have one: "unparseable_count byCodeUnits ''https://a.com/x'' five_distinct = 1"
    by (simp add: unparseable_count_def five_distinct_def pageUrl_document normalizes_def
          sample_normalizations)
  have src: "\<forall>p \<in> set five_distinct. \<exists>s. md_field md_sourceURL p = Some s \<and> s \<noteq> []"
    by (simp add: five_distinct_def document_def md_field_def)
  have same: "\<forall>p \<in> set five_distinct. \<forall>q \<in> set five_distinct.
                normalizes byCodeUnits (pageUrl ''https://a.com/x'' p)
                \<and> normalizeUrl byCodeUnits no_options (pageUrl ''https://a.com/x'' p)
                    = normalizeUrl byCodeUnits no_options (pageUrl ''https://a.com/x'' q)
                \<longrightarrow> pageUrl ''https://a.com/x'' p = pageUrl ''https://a.com/x'' q"
    by (simp add: five_distinct_def pageUrl_document normalizes_def sample_normalizations)
  have "\<exists>r. extractWebsite byCodeUnits ticks (crawl_returning five_distinct) ''https://a.com/x''
               no_website_options = Inr r
           \<and> length (pages r) = 4 \<and> length (failed r) = 1 \<and> totalPages r = 5
           \<and> totalPages r = length (pages r) + length (failed r)"
    using C3_one_unparseable_of_five
            [where lc = byCodeUnits and u = "''https://a.com/x''"
               and crawlUrl = "crawl_returning five_distinct" and options = no_website_options
               and data = five_distinct and clock = ticks]
          seed_normalizes five one src same
    by (simp add: crawl_returning_def no_website_options_def)
  then show ?thesis using five one by (auto simp: result_counts_def)
qed

text \<open>
  Claim C3 as stated does not ask that the four other URLs differ after normalization. Of
  these five records exactly one has a source URL that fails to parse, and the second page
  has the URL of the first with a slash at its end: it is left out of the deduplicated list
  and skipped, so the result has three page records and one failure record, and
  \<open>totalPages\<close> is 4.
\<close>

theorem C3_duplicate_counterexample:
  "length five_with_duplicate = 5
   \<and> unparseable_count byCodeUnits ''https://a.com/x'' five_with_duplicate = 1
   \<and> result_counts (extractWebsite byCodeUnits ticks (crawl_returning five_with_duplicate)
                       ''https://a.com/x'' no_website_options) = Some (3, 1, 4)"
  using crawl_five_with_duplicate
  by (simp add: unparseable_count_def five_with_duplicate_def pageUrl_document normalizes_def
        sample_normalizations)

text \<open>
  Claim C10, for a record whose URL parses. In the loop, a record whose URL normalizes and is
  not in the deduplicated and filtered list leaves the page records and the failure records
  as they are. Hence, in the result of a crawl, the page records are as many as the records
  whose URL normalizes and is in the list, the failure records as many as the records whose
  URL fails to parse, and \<open>totalPages\<close> falls short of the number of records returned by the
  service by the number of skipped records: it is strictly smaller as soon as one record is
  skipped.
\<close>

theorem C10_skipped_records:
  assumes "extractWebsite lc clock crawlUrl u options = Inr r"
    and "crawlUrl u (crawlOptions options) = Inr d"
  shows "(normalizes lc (pageUrl u page) \<and> pageUrl u page \<notin> set urls
            \<longrightarrow> process_page lc clock u options urls st page = st)
       \<and> length (pages r) =
           length (filter (\<lambda>p. normalizes lc (pageUrl u p)
                       \<and> pageUrl u p \<in> set (included_urls lc u options (crawl_data d)))
                     (crawl_data d))
       \<and> length (failed r) = unparseable_count lc u (crawl_data d)
       \<and> totalPages r
           + length (filter (\<lambda>p. normalizes lc (pageUrl u p)
                       \<and> pageUrl u p \<notin> set (included_urls lc u options (crawl_data d)))
                     (crawl_data d))
           = length (crawl_data d)
       \<and> ((\<exists>p \<in> set (crawl_data d). normalizes lc (pageUrl u p)
              \<and> pageUrl u p \<notin> set (included_urls lc u options (crawl_data d)))
            \<longrightarrow> totalPages r < length (crawl_data d))"
proof -
  let ?in = "\<lambda>p. pageUrl u p \<in> set (included_urls lc u options (crawl_data d))"
  let ?ok = "\<lambda>p. normalizes lc (pageUrl u p)"
  have a: "?ok page \<and> pageUrl u page \<notin> set urls
             \<longrightarrow> process_page lc clock u options urls st page = st"
    using process_page_skipped by blast
  have b: "length (pages r) = length (filter (\<lambda>p. ?ok p \<and> ?in p) (crawl_data d))"
    and c: "length (failed r) = unparseable_count lc u (crawl_data d)"
    and t: "totalPages r = length (pages r) + length (failed r)"
    using extractWebsite_counts [OF assms] by (simp_all add: unparseable_count_def)
  have e: "totalPages r + length (filter (\<lambda>p. ?ok p \<and> \<not> ?in p) (crawl_data d))
             = length (crawl_data d)"
    using filter_three_parts [of ?ok ?in "crawl_data d"] b c t
    by (simp add: unparseable_count_def)
  have "0 < length (filter (\<lambda>p. ?ok p \<and> \<not> ?in p) (crawl_data d))"
    if "\<exists>p \<in> set (crawl_data d). ?ok p \<and> \<not> ?in p"
    using that by (simp add: length_pos_if_in_set filter_empty_conv)
  with e have f: "(\<exists>p \<in> set (crawl_data d). ?ok p \<and> \<not> ?in p)
                    \<longrightarrow> totalPages r < length (crawl_data d)"
    by linarith
  from a b c e f show ?thesis by blast
qed

lemma second_record_skipped:
  "normalizes byCodeUnits (pageUrl ''https://a.com/x'' (document ''https://a.com/x/'' ''one'' []))
   \<and> document ''https://a.com/x/'' ''one'' [] \<in> set five_with_duplicate
   \<and> pageUrl ''https://a.com/x'' (document ''https://a.com/x/'' ''one'' [])
       \<notin> set (included_urls byCodeUnits ''https://a.com/x'' no_website_options
                 five_with_duplicate)"
  unfolding included_five_with_duplicate
  by (simp add: pageUrl_document normalizes_def sample_normalizations five_with_duplicate_def)

theorem C10_skipped_records_witness:
  "\<exists>r. extractWebsite byCodeUnits ticks (crawl_returning five_with_duplicate)
          ''https://a.com/x'' no_website_options = Inr r
       \<and> crawl_returning five_with_duplicate ''https://a.com/x'' (crawlOptions no_website_options)
           = Inr (Some five_with_duplicate)
       \<and> length (pages r) = 3 \<and> length (failed r) = 1 \<and> totalPages r = 4
       \<and> totalPages r < length five_with_duplicate"
proof -
  have c: "crawl_returning five_with_duplicate ''https://a.com/x''
             (crawlOptions no_website_options) = Inr (Some five_with_duplicate)"
    by (simp add: crawl_returning_def)
  obtain r where r: "extractWebsite byCodeUnits ticks (crawl_returning five_with_duplicate)
                       ''https://a.com/x'' no_website_options = Inr r"
    and n: "length (pages r) = 3 \<and> length (failed r) = 1 \<and> totalPages r = 4"
    using crawl_five_with_duplicate by (auto simp: result_counts_def split: sum.splits)
  have "\<exists>p \<in> set (crawl_data (Some five_with_duplicate)).
          normalizes byCodeUnits (pageUrl ''https://a.com/x'' p)
          \<and> pageUrl ''https://a.com/x'' p
               \<notin> set (included_urls byCodeUnits ''https://a.com/x'' no_website_options
                         (crawl_data (Some five_with_duplicate)))"
    unfolding crawl_data_def option.case
    using second_record_skipped
    by (intro bexI [of _ "document ''https://a.com/x/'' ''one'' []"]) blast+
  moreover have "(\<exists>p \<in> set (crawl_data (Some five_with_duplicate)).
          normalizes byCodeUnits (pageUrl ''https://a.com/x'' p)
          \<and> pageUrl ''https://a.com/x'' p
               \<notin> set (included_urls byCodeUnits ''https://a.com/x'' no_website_options
                         (crawl_data (Some five_with_duplicate))))
        \<longrightarrow> totalPages r < length (crawl_data (Some five_with_duplicate))"
    using C10_skipped_records [OF r c] by blast
  ultimately have "totalPages r < length (crawl_data (Some five_with_duplicate))"
    by blast
  then show ?thesis using r c n by (simp add: crawl_data_def)
qed

text \<open>
  Claim C10 as stated covers every record whose URL is not in the list. A record whose source
  URL fails to parse is dropped from the list by the deduplication, and is not skipped: the
  loop turns it into a failure record.
\<close>

theorem C10_unparseable_counterexample:
  "pageUrl ''https://a.com/x'' (document ''not a url'' ''four'' [])
     \<notin> set (included_urls byCodeUnits ''https://a.com/x'' no_website_options
               [document ''not a url'' ''four'' []])
   \<and> result_counts (extractWebsite byCodeUnits ticks
                       (crawl_returning [document ''not a url'' ''four'' []])
                       ''https://a.com/x'' no_website_options) = Some (0, 1, 1)"
proof -
  have i: "included_urls byCodeUnits ''https://a.com/x'' no_website_options
             [document ''not a url'' ''four'' []] = []"
    by (simp add: included_urls_def Let_def source_document no_website_options_def
          deduplicateUrls_def dedup_state_def dedup_step_def options_or_default_def
          sample_normalizations)
  show ?thesis
    unfolding crawl_counts [OF seed_normalizes] i
    by (simp add: unparseable_count_def pageUrl_document normalizes_def sample_normalizations)
qed

section \<open>Idempotence of normalization\<close>

lemma successively_insert_sorted:
  assumes tot: "\<forall>a b. le a b \<or> le b a"
  shows "successively le ys \<Longrightarrow> successively le (insert_sorted le x ys)"
proof (induction ys)
  case Nil
  then show ?case by simp
next
  case (Cons y ys)
  show ?case
  proof (cases "le x y")
    case True
    with Cons.prems show ?thesis by simp
  next
    case False
    then have yx: "le y x" using tot by blast
    have "successively le (insert_sorted le x ys)"
      using Cons by (cases ys) auto
    then show ?thesis using False yx Cons.prems
      by (cases ys) (auto)
  qed
qed

lemma successively_js_sort:
  "\<forall>a b. le a b \<or> le b a \<Longrightarrow> successively le (js_sort le xs)"
  unfolding js_sort_def by (induction xs) (simp_all add: successively_insert_sorted)

lemma js_sort_sorted: "successively le xs \<Longrightarrow> js_sort le xs = xs"
  unfolding js_sort_def
proof (induction xs)
  case Nil
  then show ?case by simp
next
  case (Cons x xs)
  then have "foldr (insert_sorted le) xs [] = xs" by (cases xs) auto
  then show ?case using Cons.prems by (cases xs) auto
qed

lemma js_sort_idem:
  "\<forall>a b. le a b \<or> le b a \<Longrightarrow> js_sort le (js_sort le xs) = js_sort le xs"
  by (simp add: js_sort_sorted successively_js_sort)

lemma set_insert_sorted: "set (insert_sorted le x ys) = insert x (set ys)"
  by (induction ys) auto

lemma set_js_sort: "set (js_sort le xs) = set xs"
  unfolding js_sort_def by (induction xs) (simp_all add: set_insert_sorted)

lemma js_sort_Nil_iff: "js_sort le xs = [] \<longleftrightarrow> xs = []"
  using set_js_sort [of le xs] by (metis set_empty)



lemma code_unit_less: "code_unit c < 256"
  by (simp add: code_unit_def)

lemma code_unit_eq_iff: "code_unit c = code_unit d \<longleftrightarrow> c = d"
  by (simp add: code_unit_def)




lemma isAscii_append [simp]: "isAscii (xs @ ys) \<longleftrightarrow> isAscii xs \<and> isAscii ys"
  by (simp add: isAscii_def)

lemma isAscii_Cons [simp]: "isAscii (c # cs) \<longleftrightarrow> code_unit c < 128 \<and> isAscii cs"
  by (simp add: isAscii_def)

lemma isAscii_Nil [simp]: "isAscii []"
  by (simp add: isAscii_def)





lemma percent_decode_plain:
  "c \<noteq> CHR ''%'' \<Longrightarrow> percent_decode (c # cs) = c # percent_decode cs"
  by simp

lemma percent_decode_escape:
  "isHexDigit a \<Longrightarrow> isHexDigit b \<Longrightarrow>
   percent_decode (CHR ''%'' # a # b # cs) = char_of (16 * hexValue a + hexValue b) # percent_decode cs"
  by simp





















lemma isFragmentChar_any: "isFragmentChar c \<Longrightarrow> True"
  by simp














lemma port_parse_Some:
  "port_parse sch ds = Some (Some n) \<Longrightarrow> n \<le> 65535 \<and> map_of specialSchemes sch \<noteq> Some n"
  by (auto simp: port_parse_def split: if_splits)

































lemma pathname_snoc:
  "concat (map (\<lambda>s. CHR ''/'' # s) (segs @ [x])) = concat (map (\<lambda>s. CHR ''/'' # s) segs) @ CHR ''/'' # x"
  by simp


lemma origin_update [simp]: "origin (w\<lparr>path := p\<rparr>) = origin w"
  by (simp add: origin_def)

















end
